theory Spec2Isabelle
  imports Main "HOL-Library.Sublist" "HOL-Library.AList"
begin

section \<open>Python strings\<close>

text \<open>
  A Python \<open>str\<close> is modelled as a \<open>string\<close>, one \<open>char\<close> per code point, which
  covers the code points 0 to 255. \<open>str.lower\<close> is Python's on these code points: the
  ASCII letters and the letters \<open>0xC0\<close> to \<open>0xDE\<close> (without the sign \<open>0xD7\<close>).
  \<open>str.upper\<close> is Python's on all of them but three, which Python maps out of the
  range or to two characters (\<open>0xB5\<close> to \<open>U+039C\<close>, \<open>0xFF\<close> to \<open>U+0178\<close>, \<open>0xDF\<close>
  to \<open>SS\<close>) and the model leaves as they are: the program compares upper-cased text
  only with the ASCII keywords \<open>SELECT\<close>, \<open>TOP\<close>, \<open>INSUFFICIENT_DATA\<close> and \<open>CI\<close>, none
  of which holds \<open>SS\<close>, so no test of the program tells the difference. The white
  space of \<open>str.strip\<close> and of the regular expression class \<open>\s\<close> is the set Python
  uses in that range.
\<close>

definition whitespace :: string where
  "whitespace =
     [CHR 0x09, CHR 0x0A, CHR 0x0B, CHR 0x0C, CHR 0x0D, CHR 0x1C, CHR 0x1D, CHR 0x1E,
      CHR 0x1F, CHR 0x20, CHR 0x85, CHR 0xA0]"

definition is_space :: "char \<Rightarrow> bool" where
  "is_space c = (c \<in> set whitespace)"

definition ascii_uppercase :: string where
  "ascii_uppercase = ''ABCDEFGHIJKLMNOPQRSTUVWXYZ''"

definition ascii_lowercase :: string where
  "ascii_lowercase = ''abcdefghijklmnopqrstuvwxyz''"

definition is_upper_ascii :: "char \<Rightarrow> bool" where
  "is_upper_ascii c = (c \<in> set ascii_uppercase)"

definition is_lower_ascii :: "char \<Rightarrow> bool" where
  "is_lower_ascii c = (c \<in> set ascii_lowercase)"

definition latin1_uppercase :: string where
  "latin1_uppercase =
     [CHR 0xC0, CHR 0xC1, CHR 0xC2, CHR 0xC3, CHR 0xC4, CHR 0xC5, CHR 0xC6, CHR 0xC7,
      CHR 0xC8, CHR 0xC9, CHR 0xCA, CHR 0xCB, CHR 0xCC, CHR 0xCD, CHR 0xCE, CHR 0xCF,
      CHR 0xD0, CHR 0xD1, CHR 0xD2, CHR 0xD3, CHR 0xD4, CHR 0xD5, CHR 0xD6,
      CHR 0xD8, CHR 0xD9, CHR 0xDA, CHR 0xDB, CHR 0xDC, CHR 0xDD, CHR 0xDE]"

definition latin1_lowercase :: string where
  "latin1_lowercase =
     [CHR 0xE0, CHR 0xE1, CHR 0xE2, CHR 0xE3, CHR 0xE4, CHR 0xE5, CHR 0xE6, CHR 0xE7,
      CHR 0xE8, CHR 0xE9, CHR 0xEA, CHR 0xEB, CHR 0xEC, CHR 0xED, CHR 0xEE, CHR 0xEF,
      CHR 0xF0, CHR 0xF1, CHR 0xF2, CHR 0xF3, CHR 0xF4, CHR 0xF5, CHR 0xF6,
      CHR 0xF8, CHR 0xF9, CHR 0xFA, CHR 0xFB, CHR 0xFC, CHR 0xFD, CHR 0xFE]"

definition upper_char :: "char \<Rightarrow> char" where
  "upper_char c =
     (case map_of (zip (ascii_lowercase @ latin1_lowercase) (ascii_uppercase @ latin1_uppercase)) c of
        None \<Rightarrow> c
      | Some u \<Rightarrow> u)"

definition lower_char :: "char \<Rightarrow> char" where
  "lower_char c =
     (case map_of (zip (ascii_uppercase @ latin1_uppercase) (ascii_lowercase @ latin1_lowercase)) c of
        None \<Rightarrow> c
      | Some l \<Rightarrow> l)"

definition upper :: "string \<Rightarrow> string" where
  "upper s = map upper_char s"

definition lower :: "string \<Rightarrow> string" where
  "lower s = map lower_char s"

text \<open>\<open>s.startswith(p)\<close> and \<open>p in s\<close>.\<close>

definition startswith :: "string \<Rightarrow> string \<Rightarrow> bool" where
  "startswith s p = prefix p s"

definition contains :: "string \<Rightarrow> string \<Rightarrow> bool" where
  "contains s p = sublist p s"

text \<open>\<open>s.strip()\<close>, \<open>s.rstrip(chars)\<close> and \<open>s.strip(chars)\<close>.\<close>

definition py_lstrip :: "string \<Rightarrow> string" where
  "py_lstrip s = dropWhile is_space s"

definition py_rstrip :: "string \<Rightarrow> string" where
  "py_rstrip s = rev (dropWhile is_space (rev s))"

definition py_strip :: "string \<Rightarrow> string" where
  "py_strip s = py_rstrip (py_lstrip s)"

definition py_rstrip_chars :: "string \<Rightarrow> string \<Rightarrow> string" where
  "py_rstrip_chars chars s = rev (dropWhile (\<lambda>c. c \<in> set chars) (rev s))"

definition py_strip_chars :: "string \<Rightarrow> string \<Rightarrow> string" where
  "py_strip_chars chars s = py_rstrip_chars chars (dropWhile (\<lambda>c. c \<in> set chars) s)"

text \<open>\<open>s.split(sep)\<close> for a separator of one character, and \<open>sep.join(parts)\<close>.\<close>

fun py_split :: "char \<Rightarrow> string \<Rightarrow> string list" where
  "py_split sep [] = [[]]"
| "py_split sep (c # cs) =
     (if c = sep then [] # py_split sep cs
      else (case py_split sep cs of
              [] \<Rightarrow> [[c]]
            | w # ws \<Rightarrow> (c # w) # ws))"

fun py_join :: "string \<Rightarrow> string list \<Rightarrow> string" where
  "py_join sep [] = []"
| "py_join sep [x] = x"
| "py_join sep (x # y # ys) = x @ sep @ py_join sep (y # ys)"

text \<open>
  \<open>s.replace(old, new)\<close> and \<open>s.replace(old, new, 1)\<close>. The program calls both with a
  constant, non-empty \<open>old\<close>; on an empty \<open>old\<close> these functions are not Python's.
\<close>

function py_replace :: "string \<Rightarrow> string \<Rightarrow> string \<Rightarrow> string" where
  "py_replace old new [] = []"
| "py_replace old new (c # cs) =
     (if prefix old (c # cs) then new @ py_replace old new (drop (length old - 1) cs)
      else c # py_replace old new cs)"
  by pat_completeness auto
termination
  by (relation "measure (\<lambda>(old, new, s). length s)") auto

fun py_replace1 :: "string \<Rightarrow> string \<Rightarrow> string \<Rightarrow> string" where
  "py_replace1 old new [] = []"
| "py_replace1 old new (c # cs) =
     (if prefix old (c # cs) then new @ drop (length old - 1) cs
      else c # py_replace1 old new cs)"

text \<open>\<open>str(n)\<close> for an integer.\<close>

fun nat_str :: "nat \<Rightarrow> string" where
  "nat_str n =
     (if n < 10 then [char_of (48 + n)]
      else nat_str (n div 10) @ [char_of (48 + n mod 10)])"

declare nat_str.simps [simp del]

definition int_str :: "int \<Rightarrow> string" where
  "int_str i = (if i < 0 then CHR ''-'' # nat_str (nat (- i)) else nat_str (nat i))"

definition backtick :: char where
  "backtick = CHR 0x60"

definition dquote :: char where
  "dquote = CHR 0x22"

definition squote :: char where
  "squote = CHR 0x27"

definition newline :: char where
  "newline = CHR 0x0A"


section \<open>Regular expressions\<close>

text \<open>
  The fragment of Python's \<open>re\<close> the program uses, matched as \<open>re.match\<close> does: from
  the start of the text, with the flag \<open>re.IGNORECASE\<close>. A position is the character
  before it (if any) and the text after it; \<open>rmatch\<close> lists the positions at which a
  match of the expression that starts at the given position can end.
\<close>

datatype regex =
    Bol
  | Cls "char \<Rightarrow> bool"
  | StarCls "char \<Rightarrow> bool"
  | Lit string
  | WordB
  | Seq regex regex
  | Alt regex regex

type_synonym pos = "char option \<times> string"

text \<open>\<open>\w\<close>: an alphanumeric character (\<open>str.isalnum\<close>) or the underscore.\<close>

definition is_word_char :: "char \<Rightarrow> bool" where
  "is_word_char c =
     (let n = (of_char c :: nat)
      in (48 \<le> n \<and> n \<le> 57) \<or> (65 \<le> n \<and> n \<le> 90) \<or> n = 95 \<or> (97 \<le> n \<and> n \<le> 122)
         \<or> n = 170 \<or> n = 178 \<or> n = 179 \<or> n = 181 \<or> n = 185 \<or> n = 186
         \<or> (188 \<le> n \<and> n \<le> 190) \<or> (192 \<le> n \<and> n \<le> 214) \<or> (216 \<le> n \<and> n \<le> 246)
         \<or> 248 \<le> n)"

definition word_before :: "pos \<Rightarrow> bool" where
  "word_before p = (case fst p of None \<Rightarrow> False | Some c \<Rightarrow> is_word_char c)"

definition word_after :: "pos \<Rightarrow> bool" where
  "word_after p = (case snd p of [] \<Rightarrow> False | c # _ \<Rightarrow> is_word_char c)"

fun star_cls :: "(char \<Rightarrow> bool) \<Rightarrow> char option \<Rightarrow> string \<Rightarrow> pos list" where
  "star_cls f b [] = [(b, [])]"
| "star_cls f b (c # cs) = (if f c then star_cls f (Some c) cs else []) @ [(b, c # cs)]"

text \<open>A literal, matched character by character without regard to case.\<close>

fun lit_match :: "string \<Rightarrow> char option \<Rightarrow> string \<Rightarrow> pos list" where
  "lit_match [] b s = [(b, s)]"
| "lit_match (x # xs) b [] = []"
| "lit_match (x # xs) b (c # cs) =
     (if lower_char c = lower_char x then lit_match xs (Some c) cs else [])"

fun rmatch :: "regex \<Rightarrow> pos \<Rightarrow> pos list" where
  "rmatch Bol p = (if fst p = None then [p] else [])"
| "rmatch (Cls f) p =
     (case snd p of [] \<Rightarrow> [] | c # cs \<Rightarrow> if f c then [(Some c, cs)] else [])"
| "rmatch (StarCls f) p = star_cls f (fst p) (snd p)"
| "rmatch (Lit l) p = lit_match l (fst p) (snd p)"
| "rmatch WordB p = (if word_before p \<noteq> word_after p then [p] else [])"
| "rmatch (Seq a b) p = concat (map (rmatch b) (rmatch a p))"
| "rmatch (Alt a b) p = rmatch a p @ rmatch b p"

definition re_match :: "regex \<Rightarrow> string \<Rightarrow> bool" where
  "re_match r s = (rmatch r (None, s) \<noteq> [])"

definition Plus :: "(char \<Rightarrow> bool) \<Rightarrow> regex" where
  "Plus f = Seq (Cls f) (StarCls f)"


section \<open>Cleaning the generated SQL\<close>

text \<open>The pattern \<^verbatim>\<open>^[A-Za-z_\[\]]+.*FROM\s+\<close> of \<open>clean_generated_sql\<close>.\<close>

definition ident_char :: "char \<Rightarrow> bool" where
  "ident_char c = (is_upper_ascii c \<or> is_lower_ascii c \<or> c = CHR ''_'' \<or> c = CHR ''['' \<or> c = CHR '']'')"

definition not_newline :: "char \<Rightarrow> bool" where
  "not_newline c = (c \<noteq> newline)"

definition from_pattern :: regex where
  "from_pattern =
     Seq Bol (Seq (Plus ident_char) (Seq (StarCls not_newline) (Seq (Lit ''FROM'') (Plus is_space))))"

definition fence :: string where
  "fence = [backtick, backtick, backtick]"

definition prefixes :: "string list" where
  "prefixes = [fence @ ''sql'', ''sql:'', ''SQL:'', ''Query:'']"

definition strip_prefix :: "string \<Rightarrow> string \<Rightarrow> string" where
  "strip_prefix p sql =
     (if startswith (lower sql) (lower p) then py_strip (drop (length p) sql) else sql)"

definition clean_generated_sql :: "string \<Rightarrow> string" where
  "clean_generated_sql sql_text =
     (let sql = py_strip sql_text;
          sql = (if startswith sql fence
                 then (let lines = py_split newline sql
                       in if length lines > 2 then py_join [newline] (butlast (tl lines))
                          else py_replace fence [] sql)
                 else sql);
          sql = fold strip_prefix prefixes sql;
          sql = py_rstrip_chars [backtick] (py_strip sql);
          sql_upper = py_strip (upper sql)
      in if startswith sql_upper ''TOP '' \<and> \<not> contains (take 10 sql_upper) ''SELECT''
         then ''SELECT '' @ sql
         else if re_match from_pattern sql \<and> \<not> startswith sql_upper ''SELECT''
         then ''SELECT '' @ sql
         else sql)"


section \<open>Values, exceptions and the environment\<close>

text \<open>
  A value of a result row as the database driver returns it: \<open>None\<close> for SQL NULL, a
  string, or any other value (a number, a date, bytes), kept as the text \<open>str\<close> gives
  for it. A row is the \<open>dict\<close> from column names to values in insertion order.
\<close>

datatype val = VNone | VStr string | VOther string

type_synonym row = "(string \<times> val) list"

fun str_val :: "val \<Rightarrow> string" where
  "str_val VNone = ''None''"
| "str_val (VStr s) = s"
| "str_val (VOther r) = r"

text \<open>
  An exception is its class name and the message \<open>str(e)\<close>. Every exception of the
  model is a subclass of \<open>Exception\<close>, so \<open>except Exception\<close> catches it.
\<close>

datatype exn = Exn (kind: string) (str_exn: string)

definition KeyError :: "string \<Rightarrow> exn" where
  "KeyError k = Exn ''KeyError'' ([squote] @ k @ [squote])"

definition AttributeError :: "string \<Rightarrow> exn" where
  "AttributeError m = Exn ''AttributeError'' m"

definition IndexError :: "string \<Rightarrow> exn" where
  "IndexError m = Exn ''IndexError'' m"

definition UnboundLocalError :: "string \<Rightarrow> exn" where
  "UnboundLocalError v =
     Exn ''UnboundLocalError''
       (''cannot access local variable '' @ [squote] @ v @ [squote]
        @ '' where it is not associated with a value'')"

text \<open>
  What the program does to the outside, in order: \<open>Query\<close> is a call of
  \<open>execute_query\<close> with its SQL text and parameters, \<open>Opened\<close> and \<open>Closed\<close> are a
  database connection returned by \<open>pyodbc.connect\<close> and closed by \<open>conn.close()\<close>,
  \<open>CursorOpened\<close> and \<open>CursorClosed\<close> the same for a cursor, \<open>Ask\<close> is a call of
  \<open>ask_llm\<close> with its prompt.
\<close>

datatype event =
    Query string "val list"
  | Opened
  | CursorOpened
  | CursorClosed
  | Closed
  | Ask string

text \<open>
  How the database answers one call of \<open>execute_query\<close>: which driver call raises, the
  column names of \<open>cursor.description\<close> and the rows of \<open>cursor.fetchall()\<close>.
\<close>

record db_script =
  cursor_exn :: "exn option"
  execute_exn :: "exn option"
  description :: "string list option"
  fetchall :: "exn + val list list"
  cursor_close_exn :: "exn option"
  conn_close_exn :: "exn option"

datatype uentry = UValues "val list" | UError string

text \<open>
  The environment. The answers of the database and of the language model are arbitrary
  functions of everything that has happened so far. \<open>json_rows\<close> and \<open>json_unique\<close>
  stand for \<open>json.dumps(..., indent=2, default=str)\<close> on a list of rows and on the
  dictionary of unique values.
\<close>

record world =
  getenv :: "string \<Rightarrow> string option"
  connect :: "event list \<Rightarrow> exn option"
  db :: "event list \<Rightarrow> db_script"
  llm :: "event list \<Rightarrow> exn + string option"
  json_rows :: "row list \<Rightarrow> exn + string"
  json_unique :: "(val \<times> uentry) list \<Rightarrow> exn + string"

text \<open>The mutable state: the history and the module's global \<open>DATABASE_COLLATION\<close>.\<close>

record state =
  trace :: "event list"
  DATABASE_COLLATION :: val

definition init_state :: state where
  "init_state = \<lparr>trace = [], DATABASE_COLLATION = VNone\<rparr>"

definition log :: "event \<Rightarrow> state \<Rightarrow> state" where
  "log e s = s\<lparr>trace := trace s @ [e]\<rparr>"

text \<open>A computation returns a value or raises, and changes the state.\<close>

type_synonym 'a prog = "state \<Rightarrow> (exn + 'a) \<times> state"

definition ret :: "'a \<Rightarrow> 'a prog" where
  "ret x = (\<lambda>s. (Inr x, s))"

definition raise :: "exn \<Rightarrow> 'a prog" where
  "raise e = (\<lambda>s. (Inl e, s))"

definition lift :: "exn + 'a \<Rightarrow> 'a prog" where
  "lift r = (\<lambda>s. (r, s))"

definition bnd :: "'a prog \<Rightarrow> ('a \<Rightarrow> 'b prog) \<Rightarrow> 'b prog" where
  "bnd m f = (\<lambda>s. case m s of (Inl e, s') \<Rightarrow> (Inl e, s') | (Inr x, s') \<Rightarrow> f x s')"

definition try_except :: "'a prog \<Rightarrow> (exn \<Rightarrow> 'a prog) \<Rightarrow> 'a prog" where
  "try_except m h = (\<lambda>s. case m s of (Inl e, s') \<Rightarrow> h e s' | (Inr x, s') \<Rightarrow> (Inr x, s'))"

definition getitem :: "row \<Rightarrow> string \<Rightarrow> exn + val" where
  "getitem r k = (case map_of r k of None \<Rightarrow> Inl (KeyError k) | Some v \<Rightarrow> Inr v)"

definition getitem_val :: "row \<Rightarrow> val \<Rightarrow> exn + val" where
  "getitem_val r k = (case k of VStr n \<Rightarrow> getitem r n | _ \<Rightarrow> Inl (KeyError (str_val k)))"


section \<open>The query executor\<close>

definition truthy :: "string option \<Rightarrow> bool" where
  "truthy v = (case v of None \<Rightarrow> False | Some x \<Rightarrow> x \<noteq> [])"

definition get_fabric_connection :: "world \<Rightarrow> unit prog" where
  "get_fabric_connection w s =
     (if \<not> list_all truthy
            [getenv w ''FABRIC_SQL_ENDPOINT'', getenv w ''FABRIC_DATABASE'',
             getenv w ''FABRIC_CLIENT_ID'', getenv w ''FABRIC_CLIENT_SECRET'',
             getenv w ''FABRIC_TENANT_ID'']
      then (Inl (Exn ''Exception''
                  (''Missing required environment variables: FABRIC_SQL_ENDPOINT, ''
                   @ ''FABRIC_DATABASE, FABRIC_CLIENT_ID, FABRIC_CLIENT_SECRET, FABRIC_TENANT_ID'')), s)
      else (case connect w (trace s) of
              Some e \<Rightarrow> (Inl e, s)
            | None \<Rightarrow> (Inr (), log Opened s)))"

text \<open>\<open>{columns[i]: value for i, value in enumerate(row)}\<close>\<close>

definition mk_row :: "string list \<Rightarrow> val list \<Rightarrow> exn + row" where
  "mk_row columns vs =
     (if length columns < length vs then Inl (IndexError ''list index out of range'')
      else Inr (fold (\<lambda>(k, v) d. AList.update k v d) (zip columns vs) []))"

fun mk_rows :: "string list \<Rightarrow> val list list \<Rightarrow> exn + row list" where
  "mk_rows columns [] = Inr []"
| "mk_rows columns (r # rs) =
     (case mk_row columns r of
        Inl e \<Rightarrow> Inl e
      | Inr d \<Rightarrow> (case mk_rows columns rs of Inl e \<Rightarrow> Inl e | Inr ds \<Rightarrow> Inr (d # ds)))"

text \<open>The body of the \<open>try\<close> block after \<open>conn.cursor()\<close> has returned.\<close>

definition query_body :: "db_script \<Rightarrow> exn + row list" where
  "query_body sc =
     (case execute_exn sc of
        Some e \<Rightarrow> Inl e
      | None \<Rightarrow>
          (let columns = (case description sc of None \<Rightarrow> [] | Some cs \<Rightarrow> cs)
           in case fetchall sc of
                Inl e \<Rightarrow> Inl e
              | Inr rows \<Rightarrow> mk_rows columns rows))"

text \<open>
  \<open>execute_query\<close>. When \<open>conn.cursor()\<close> raises, the handler re-raises and the
  \<open>finally\<close> block reads the local \<open>cursor\<close>, which was never bound: that raises
  \<open>UnboundLocalError\<close> before \<open>conn.close()\<close>. An exception of \<open>cursor.close()\<close> or
  \<open>conn.close()\<close> replaces the outcome of the body.
\<close>

definition execute_query :: "world \<Rightarrow> string \<Rightarrow> val list \<Rightarrow> row list prog" where
  "execute_query w query params s =
     (let s0 = log (Query query params) s
      in case get_fabric_connection w s0 of
           (Inl e, s1) \<Rightarrow> (Inl e, s1)
         | (Inr u, s1) \<Rightarrow>
             (let sc = db w (trace s0)
              in case cursor_exn sc of
                   Some e \<Rightarrow> (Inl (UnboundLocalError ''cursor''), s1)
                 | None \<Rightarrow>
                     (let s2 = log CursorOpened s1;
                          outcome = query_body sc
                      in case cursor_close_exn sc of
                           Some e \<Rightarrow> (Inl e, s2)
                         | None \<Rightarrow>
                             (let s3 = log CursorClosed s2
                              in case conn_close_exn sc of
                                   Some e \<Rightarrow> (Inl e, s3)
                                 | None \<Rightarrow> (outcome, log Closed s3)))))"


section \<open>The collation\<close>

definition collation_query :: string where
  "collation_query =
     ''SELECT DATABASEPROPERTYEX(DB_NAME(), '' @ [squote] @ ''Collation'' @ [squote]
     @ '') AS Collation''"

definition get_database_collation :: "world \<Rightarrow> val prog" where
  "get_database_collation w s =
     (let s' =
        (if DATABASE_COLLATION s = VNone
         then (case execute_query w collation_query [] s of
                 (Inl e, s1) \<Rightarrow> s1\<lparr>DATABASE_COLLATION := VStr ''Unknown''\<rparr>
               | (Inr result, s1) \<Rightarrow>
                   (case result of
                      [] \<Rightarrow> s1\<lparr>DATABASE_COLLATION := VStr ''Unknown''\<rparr>
                    | r # _ \<Rightarrow>
                        (case getitem r ''Collation'' of
                           Inl e \<Rightarrow> s1\<lparr>DATABASE_COLLATION := VStr ''Unknown''\<rparr>
                         | Inr v \<Rightarrow> s1\<lparr>DATABASE_COLLATION := v\<rparr>)))
         else s)
      in (Inr (DATABASE_COLLATION s'), s'))"

definition is_collation_case_insensitive :: "world \<Rightarrow> bool prog" where
  "is_collation_case_insensitive w =
     bnd (get_database_collation w) (\<lambda>collation.
       if collation \<noteq> VStr ''Unknown''
       then (case collation of
               VStr c \<Rightarrow> ret (contains (upper c) ''CI'')
             | _ \<Rightarrow> raise (AttributeError ''object has no attribute upper''))
       else ret False)"


section \<open>The schema catalog\<close>

record table =
  tbl_schema :: val
  tbl_name :: val
  tbl_type :: val
  tbl_full_name :: string
  tbl_working_format :: string

text \<open>Running a function that may raise over a list, left to right.\<close>

fun map_exn :: "('a \<Rightarrow> exn + 'b) \<Rightarrow> 'a list \<Rightarrow> exn + 'b list" where
  "map_exn f [] = Inr []"
| "map_exn f (x # xs) =
     (case f x of
        Inl e \<Rightarrow> Inl e
      | Inr y \<Rightarrow> (case map_exn f xs of Inl e \<Rightarrow> Inl e | Inr ys \<Rightarrow> Inr (y # ys)))"

definition list_tables_query :: string where
  "list_tables_query =
     [newline] @ ''    SELECT TABLE_SCHEMA, TABLE_NAME, TABLE_TYPE'' @ [newline]
     @ ''    FROM INFORMATION_SCHEMA.TABLES '' @ [newline] @ ''    WHERE TABLE_TYPE = ''
     @ [squote] @ ''BASE TABLE'' @ [squote, newline] @ ''    AND TABLE_SCHEMA NOT IN (''
     @ [squote] @ ''sys'' @ [squote] @ '', '' @ [squote] @ ''INFORMATION_SCHEMA'' @ [squote]
     @ '')'' @ [newline] @ ''    AND TABLE_NAME NOT LIKE '' @ [squote] @ ''sys%''
     @ [squote, newline] @ ''    ORDER BY TABLE_SCHEMA, TABLE_NAME'' @ [newline] @ ''    ''"

text \<open>\<^verbatim>\<open>f"[{schema}].[{name}]"\<close>\<close>

definition bracketed :: "val \<Rightarrow> val \<Rightarrow> string" where
  "bracketed schema_v name_v = ''['' @ str_val schema_v @ ''].['' @ str_val name_v @ '']''"

fun list_tables_loop :: "world \<Rightarrow> row list \<Rightarrow> table list \<Rightarrow> table list prog" where
  "list_tables_loop w [] tables = ret tables"
| "list_tables_loop w (r # rs) tables =
     bnd (lift (getitem r ''TABLE_SCHEMA'')) (\<lambda>schema_v.
     bnd (lift (getitem r ''TABLE_NAME'')) (\<lambda>table_name.
     bnd (try_except
            (bnd (execute_query w (''SELECT TOP 1 * FROM '' @ bracketed schema_v table_name) [])
                 (\<lambda>rows. ret (Some (bracketed schema_v table_name))))
            (\<lambda>e. ret None)) (\<lambda>working_format.
     bnd (lift (getitem r ''TABLE_TYPE'')) (\<lambda>type_v.
     list_tables_loop w rs
       (tables @
        [\<lparr>tbl_schema = schema_v, tbl_name = table_name, tbl_type = type_v,
          tbl_full_name = str_val schema_v @ ''.'' @ str_val table_name,
          tbl_working_format =
            (if truthy working_format then the working_format
             else bracketed schema_v table_name)\<rparr>])))))"

definition list_fabric_tables :: "world \<Rightarrow> table list prog" where
  "list_fabric_tables w =
     bnd (execute_query w list_tables_query []) (\<lambda>results. list_tables_loop w results [])"

record schema_info =
  table_name :: string
  columns :: "row list"

definition schema_query :: string where
  "schema_query =
     [newline] @ ''    SELECT COLUMN_NAME, DATA_TYPE, IS_NULLABLE'' @ [newline]
     @ ''    FROM INFORMATION_SCHEMA.COLUMNS '' @ [newline]
     @ ''    WHERE TABLE_SCHEMA = ? AND TABLE_NAME = ?'' @ [newline]
     @ ''    ORDER BY ORDINAL_POSITION'' @ [newline] @ ''    ''"

text \<open>\<^verbatim>\<open>[t for t in all_tables if t["name"].lower() == table_name.lower()]\<close>\<close>

fun matching_tables :: "table list \<Rightarrow> string \<Rightarrow> exn + table list" where
  "matching_tables [] n = Inr []"
| "matching_tables (t # ts) n =
     (case tbl_name t of
        VStr tn \<Rightarrow>
          (case matching_tables ts n of
             Inl e \<Rightarrow> Inl e
           | Inr ms \<Rightarrow> Inr (if lower tn = lower n then t # ms else ms))
      | _ \<Rightarrow> Inl (AttributeError ''object has no attribute lower''))"

text \<open>\<open>table_name.split(".", 1)\<close> on a name that holds a dot.\<close>

definition split_first :: "char \<Rightarrow> string \<Rightarrow> string \<times> string" where
  "split_first sep s = (takeWhile (\<lambda>c. c \<noteq> sep) s, drop 1 (dropWhile (\<lambda>c. c \<noteq> sep) s))"

definition get_table_schema :: "world \<Rightarrow> string \<Rightarrow> schema_info prog" where
  "get_table_schema w tname =
     bnd (if contains tname ''.''
          then ret (VStr (fst (split_first (CHR ''.'') tname)),
                    VStr (snd (split_first (CHR ''.'') tname)))
          else bnd (list_fabric_tables w) (\<lambda>all_tables.
               bnd (lift (matching_tables all_tables tname)) (\<lambda>matching.
               case matching of
                 t # _ \<Rightarrow> ret (tbl_schema t, tbl_name t)
               | [] \<Rightarrow> ret (VStr ''dbo'', VStr tname))))
       (\<lambda>(schema_v, table_v).
          bnd (execute_query w schema_query [schema_v, table_v]) (\<lambda>results.
          bnd (lift (map_exn (\<lambda>col. getitem col ''COLUMN_NAME'') results)) (\<lambda>column_names.
          ret \<lparr>table_name = str_val schema_v @ ''.'' @ str_val table_v, columns = results\<rparr>)))"


section \<open>The sample extractor\<close>

definition column_text :: "row \<Rightarrow> exn + string" where
  "column_text col =
     (case getitem col ''COLUMN_NAME'' of
        Inl e \<Rightarrow> Inl e
      | Inr n \<Rightarrow>
          (case getitem col ''DATA_TYPE'' of
             Inl e \<Rightarrow> Inl e
           | Inr t \<Rightarrow>
               (case getitem col ''IS_NULLABLE'' of
                  Inl e \<Rightarrow> Inl e
                | Inr nl \<Rightarrow>
                    Inr (''['' @ str_val n @ ''] ('' @ str_val t @ '', Nullable: ''
                         @ str_val nl @ '')''))))"

definition string_types :: "val list" where
  "string_types = [VStr ''varchar'', VStr ''nvarchar'', VStr ''char'', VStr ''nchar'']"

definition unique_query :: "val \<Rightarrow> table \<Rightarrow> string" where
  "unique_query cn t =
     ''SELECT DISTINCT ['' @ str_val cn @ ''] FROM '' @ bracketed (tbl_schema t) (tbl_name t)
     @ ''] WHERE ['' @ str_val cn @ ''] IS NOT NULL''"

text \<open>One column of the loop over \<open>schema_info['columns']\<close>, after its type test.\<close>

definition unique_entry :: "world \<Rightarrow> table \<Rightarrow> row \<Rightarrow> (val \<times> uentry) list \<Rightarrow> (val \<times> uentry) list prog" where
  "unique_entry w t col unique_values =
     try_except
       (bnd (lift (getitem col ''COLUMN_NAME'')) (\<lambda>cn.
        bnd (execute_query w (unique_query cn t) []) (\<lambda>results.
        bnd (lift (map_exn (\<lambda>r. getitem_val r cn) results)) (\<lambda>vs.
        ret (AList.update cn (UValues (take 10 vs)) unique_values)))))
       (\<lambda>e. bnd (lift (getitem col ''COLUMN_NAME'')) (\<lambda>cn.
             ret (AList.update cn (UError (''Error: '' @ str_exn e)) unique_values)))"

fun unique_loop :: "world \<Rightarrow> table \<Rightarrow> row list \<Rightarrow> (val \<times> uentry) list \<Rightarrow> (val \<times> uentry) list prog" where
  "unique_loop w t [] unique_values = ret unique_values"
| "unique_loop w t (col # cols) unique_values =
     bnd (lift (getitem col ''DATA_TYPE'')) (\<lambda>dt.
       if dt \<in> set string_types
       then bnd (unique_entry w t col unique_values) (\<lambda>uv. unique_loop w t cols uv)
       else unique_loop w t cols unique_values)"

definition sample_query :: "table \<Rightarrow> string" where
  "sample_query t = ''SELECT TOP 5 * FROM '' @ bracketed (tbl_schema t) (tbl_name t)"

definition table_info :: "world \<Rightarrow> table \<Rightarrow> string prog" where
  "table_info w t =
     try_except
       (bnd (get_table_schema w (tbl_full_name t)) (\<lambda>si.
        bnd (lift (map_exn column_text (columns si))) (\<lambda>cols.
        bnd (try_except (execute_query w (sample_query t) []) (\<lambda>e. ret [])) (\<lambda>sample_data.
        bnd (unique_loop w t (columns si) []) (\<lambda>unique_values.
        bnd (lift (json_rows w sample_data)) (\<lambda>sample_json.
        bnd (lift (json_unique w unique_values)) (\<lambda>unique_json.
        ret (''Table: '' @ bracketed (tbl_schema t) (tbl_name t) @ [newline]
             @ ''Columns: '' @ py_join '', '' cols @ [newline]
             @ ''Sample Data: '' @ sample_json @ [newline]
             @ ''Unique Values (string columns): '' @ unique_json))))))))
       (\<lambda>e. ret (''Table: '' @ bracketed (tbl_schema t) (tbl_name t)
                   @ '' (Schema unavailable)''))"

fun tables_info_loop :: "world \<Rightarrow> table list \<Rightarrow> string list \<Rightarrow> string list prog" where
  "tables_info_loop w [] tables_info = ret tables_info"
| "tables_info_loop w (t # ts) tables_info =
     bnd (table_info w t) (\<lambda>info. tables_info_loop w ts (tables_info @ [info]))"

definition get_tables_info :: "world \<Rightarrow> string prog" where
  "get_tables_info w =
     bnd (list_fabric_tables w) (\<lambda>all_tables.
     bnd (tables_info_loop w all_tables []) (\<lambda>tables_info.
     ret (py_join [newline, newline] tables_info)))"


section \<open>The prompt builder and the language model\<close>

definition case_sensitive_instruction :: string where
  "case_sensitive_instruction =
     ''For string columns (varchar, nvarchar, char, nchar), use LOWER([Column]) = LOWER(''
     @ [squote] @ ''value'' @ [squote]
     @ '') for case-insensitive comparisons. For numeric or boolean columns (int, bit, float), use direct comparisons (e.g., [Column] = 0 or [Column] = 1).''"

definition case_insensitive_instruction :: string where
  "case_insensitive_instruction =
     ''String comparisons are case-insensitive due to database collation. For numeric or boolean columns, use direct comparisons.''"

definition prompt_text :: "string \<Rightarrow> string \<Rightarrow> int \<Rightarrow> string \<Rightarrow> string" where
  "prompt_text question tables_info limit case_instruction =
     [newline] @ ''Generate a Microsoft Fabric SQL Database query to answer this question.''
     @ [newline, newline] @ ''CRITICAL RULES for Fabric SQL Database:'' @ [newline]
     @ ''1. ALWAYS start with '' @ [dquote] @ ''SELECT'' @ [dquote, newline]
     @ ''2. ALWAYS use [schema].[Table Name] format for tables (e.g., [dbo].[TableName])''
     @ [newline]
     @ ''3. Use exact column names as listed, with brackets for names with spaces (e.g., [Column Name])''
     @ [newline] @ ''4. Include TOP '' @ int_str limit @ '' for performance'' @ [newline]
     @ ''5. Return only the SQL query, no explanations'' @ [newline]
     @ ''6. If uncertain, attempt a query based on the most relevant table and columns, using sample values to guide conditions''
     @ [newline]
     @ ''7. Do NOT omit schema prefix (e.g., use [dbo].[Table Name], not [Table Name])''
     @ [newline] @ ''8. '' @ case_instruction @ [newline]
     @ ''9. Support aggregation functions (e.g., COUNT, SUM, AVG) for questions asking for counts or summaries''
     @ [newline]
     @ ''10. Table and column names are case-insensitive; normalize to match schema''
     @ [newline]
     @ ''11. For listing queries, select identifier columns (e.g., [DeviceID], [Device Name]) and relevant attributes, avoiding non-device identifiers like [Employee ID]''
     @ [newline] @ ''12. For '' @ [squote] @ ''outdated'' @ [squote]
     @ '' conditions, prioritize boolean/numeric columns (e.g., [Status] = 0) or date columns (e.g., [LastUpdateDate] < GETDATE() - 30) based on sample values''
     @ [newline, newline] @ ''Available Tables:'' @ [newline] @ tables_info
     @ [newline, newline] @ ''Question: '' @ question @ [newline, newline] @ ''Examples:''
     @ [newline] @ ''- SELECT TOP '' @ int_str limit
     @ '' [DeviceID], [Device Name], [OS Type], [Endpoint_protection] FROM [dbo].[DeviceSecurityTable] WHERE [Endpoint_protection] = 0''
     @ [newline] @ ''- SELECT TOP '' @ int_str limit
     @ '' [DeviceID], [Device Name], [Antivirus Version] FROM [dbo].[DeviceSecurityTable] WHERE [LastUpdateDate] < DATEADD(day, -30, GETDATE())''
     @ [newline] @ ''- SELECT TOP '' @ int_str limit
     @ '' COUNT(*) AS ThreatCount, [Threat Type] FROM [dbo].[ThreatsDetectedTable] WHERE LOWER([Severity]) = LOWER(''
     @ [squote] @ ''high'' @ [squote] @ '') GROUP BY [Threat Type]'' @ [newline]
     @ ''- SELECT TOP '' @ int_str limit
     @ '' [t1].[Employee ID], [t2].[Department] FROM [dbo].[Employees] [t1] JOIN [dbo].[Departments] [t2] ON [t1].[Department ID] = [t2].[Department ID]''
     @ [newline, newline] @ ''Return only the complete SQL query starting with SELECT:''
     @ [newline]"

definition build_smart_prompt :: "world \<Rightarrow> string \<Rightarrow> string \<Rightarrow> int \<Rightarrow> string prog" where
  "build_smart_prompt w question tables_info limit =
     bnd (is_collation_case_insensitive w) (\<lambda>case_insensitive.
     ret (prompt_text question tables_info limit
            (if \<not> case_insensitive then case_sensitive_instruction
             else case_insensitive_instruction)))"

text \<open>
  \<open>ask_llm\<close> returns \<open>response.choices[0].message.content\<close>, which the client types as
  an optional string.
\<close>

definition ask_llm :: "world \<Rightarrow> string \<Rightarrow> string option prog" where
  "ask_llm w prompt s =
     (let s0 = log (Ask prompt) s
      in if \<not> truthy (getenv w ''AZURE_OPENAI_DEPLOYMENT'')
         then (Inl (Exn ''ValueError'' ''AZURE_OPENAI_DEPLOYMENT not set''), s0)
         else (llm w (trace s0), s0))"

text \<open>\<open>clean_generated_sql\<close> applied to what \<open>ask_llm\<close> returned.\<close>

definition clean_response :: "string option \<Rightarrow> exn + string" where
  "clean_response raw =
     (case raw of
        None \<Rightarrow> Inl (AttributeError ''object has no attribute strip'')
      | Some t \<Rightarrow> Inr (clean_generated_sql t))"


section \<open>The analysis of a question\<close>

datatype jv = JNone | JStr string | JInt int | JStrs "string list" | JRows "row list"

type_synonym result = "(string \<times> jv) list"

definition relax_old :: string where
  "relax_old =
     ''If uncertain, attempt a query based on the most relevant table and columns''"

definition relax_new :: string where
  "relax_new =
     ''Make a best-guess query using the most relevant table and columns, even if uncertain''"

definition is_sentinel :: "string \<Rightarrow> bool" where
  "is_sentinel generated_sql = (upper (py_strip generated_sql) = ''INSUFFICIENT_DATA'')"

text \<open>Lines 323 to 335: the prompt, the call of the model, and the one retry.\<close>

definition generate_sql :: "world \<Rightarrow> string \<Rightarrow> int \<Rightarrow> string prog" where
  "generate_sql w question limit =
     bnd (get_tables_info w) (\<lambda>tables_info.
     bnd (build_smart_prompt w question tables_info limit) (\<lambda>prompt.
     bnd (ask_llm w prompt) (\<lambda>generated_sql_raw.
     bnd (lift (clean_response generated_sql_raw)) (\<lambda>generated_sql.
     if is_sentinel generated_sql
     then bnd (ask_llm w (py_replace relax_old relax_new prompt)) (\<lambda>raw2.
          lift (clean_response raw2))
     else ret generated_sql))))"

text \<open>Lines 344 and 345.\<close>

definition inject_limit :: "int \<Rightarrow> string \<Rightarrow> string" where
  "inject_limit limit generated_sql =
     (if \<not> contains (upper generated_sql) ''TOP''
      then py_replace1 ''SELECT'' (''SELECT TOP '' @ int_str limit) generated_sql
      else generated_sql)"

definition all_valid_names :: "table list \<Rightarrow> string list" where
  "all_valid_names available_tables =
     map (\<lambda>t. lower (bracketed (tbl_schema t) (tbl_name t))) available_tables"

definition has_valid_table :: "table list \<Rightarrow> string \<Rightarrow> bool" where
  "has_valid_table available_tables generated_sql =
     list_ex (\<lambda>n. contains (lower generated_sql) n) (all_valid_names available_tables)"

definition full_names :: "table list \<Rightarrow> jv" where
  "full_names available_tables = JStrs (map tbl_full_name available_tables)"

text \<open>The suggestions for a query that returned no rows (lines 372 to 386).\<close>

definition suggestion :: "val \<Rightarrow> val \<Rightarrow> string list" where
  "suggestion dt cn =
     (if dt \<in> set [VStr ''bit'', VStr ''int'']
      then [''Try ['' @ str_val cn @ ''] = 0 or ['' @ str_val cn @ ''] = 1'']
      else if dt \<in> set [VStr ''datetime'', VStr ''date'']
      then [''Try ['' @ str_val cn @ ''] < DATEADD(day, -30, GETDATE())'']
      else if dt \<in> set string_types
      then [''Try LOWER(['' @ str_val cn @ '']) = LOWER('' @ [squote] @ ''outdated'' @ [squote] @ '')'']
      else [])"

text \<open>
  The loop appends to \<open>suggestions\<close> in place, so what it appended before a column
  raised is kept: the loop returns the list and the exception, if any.
\<close>

fun suggestions_loop :: "row list \<Rightarrow> string list \<Rightarrow> string list \<times> exn option" where
  "suggestions_loop [] suggestions = (suggestions, None)"
| "suggestions_loop (col # cols) suggestions =
     (case getitem col ''DATA_TYPE'' of
        Inl e \<Rightarrow> (suggestions, Some e)
      | Inr dt \<Rightarrow>
          (if dt \<in> set [VStr ''bit'', VStr ''int''] \<or> dt \<in> set [VStr ''datetime'', VStr ''date'']
              \<or> dt \<in> set string_types
           then (case getitem col ''COLUMN_NAME'' of
                   Inl e \<Rightarrow> (suggestions, Some e)
                 | Inr cn \<Rightarrow> suggestions_loop cols (suggestions @ suggestion dt cn))
           else suggestions_loop cols suggestions))"

definition inspect_error :: "exn \<Rightarrow> string" where
  "inspect_error e = ''Error inspecting table: '' @ str_exn e"

definition default_suggestions :: "string list" where
  "default_suggestions =
     [''Check column values using /api/fabric/inspect-table'',
      ''Try alternative conditions (e.g., date-based or different status values)'']"

definition no_results :: "world \<Rightarrow> string \<Rightarrow> table list \<Rightarrow> string \<Rightarrow> result prog" where
  "no_results w question available_tables generated_sql =
     bnd (case find (\<lambda>n. contains (lower generated_sql) n) (all_valid_names available_tables) of
            None \<Rightarrow> ret []
          | Some tn \<Rightarrow>
              (if tn = [] then ret []
               else (case py_split (CHR ''.'') (py_strip_chars ''[]'' tn) of
                       [schema_s, table_s] \<Rightarrow>
                         (\<lambda>s. case get_table_schema w (schema_s @ ''.'' @ table_s) s of
                                 (Inl e, s1) \<Rightarrow> (Inr [inspect_error e], s1)
                               | (Inr si, s1) \<Rightarrow>
                                   (case suggestions_loop (columns si) [] of
                                      (sg, None) \<Rightarrow> (Inr sg, s1)
                                    | (sg, Some e) \<Rightarrow> (Inr (sg @ [inspect_error e]), s1)))
                     | parts \<Rightarrow>
                         raise (Exn ''ValueError''
                                  (if length parts < 2
                                   then ''not enough values to unpack (expected 2, got 1)''
                                   else ''too many values to unpack (expected 2)'')))))
       (\<lambda>suggestions.
          ret [(''question'', JStr question),
               (''generated_sql'', JStr generated_sql),
               (''analysis'', JStr ''Query executed but returned no results''),
               (''available_tables'', full_names available_tables),
               (''suggestions'', JStrs (if suggestions \<noteq> [] then suggestions
                                        else default_suggestions))])"


section \<open>The result summarizer\<close>

text \<open>The pattern \<^verbatim>\<open>^\s*(list|show|display|which|what)\b\<close>.\<close>

definition listing_pattern :: regex where
  "listing_pattern =
     Seq Bol (Seq (StarCls is_space)
       (Seq (Alt (Lit ''list'') (Alt (Lit ''show'') (Alt (Lit ''display'')
              (Alt (Lit ''which'') (Lit ''what'')))))
            WordB))"

definition is_listing_query :: "string \<Rightarrow> bool" where
  "is_listing_query question = re_match listing_pattern (lower question)"

definition listing_prompt :: "string \<Rightarrow> string \<Rightarrow> string" where
  "listing_prompt context question =
     [newline]
     @ ''Based on this data, provide a formatted list of the results to answer the question. Include all fields for each item, using clear labels.''
     @ [newline, newline] @ ''Data: '' @ context @ [newline] @ ''Question: '' @ question
     @ [newline, newline] @ ''Format the response as a numbered list, e.g.:'' @ [newline]
     @ ''1. Device: [Field1: Value1, Field2: Value2, ...]'' @ [newline]
     @ ''2. Device: [Field1: Value1, Field2: Value2, ...]'' @ [newline]
     @ ''If no results, state: '' @ [dquote] @ ''No items found matching the criteria.''
     @ [dquote, newline]
     @ ''Ensure all returned items are listed, up to the provided data limit.'' @ [newline]"

definition direct_prompt :: "string \<Rightarrow> string \<Rightarrow> string" where
  "direct_prompt context question =
     [newline] @ ''Based on this data, answer the question directly and concisely:''
     @ [newline, newline] @ ''Data: '' @ context @ [newline] @ ''Question: '' @ question
     @ [newline, newline] @ ''Provide a specific, direct answer:'' @ [newline]"

text \<open>\<open>results[:limit]\<close>\<close>

definition slice_to :: "int \<Rightarrow> 'a list \<Rightarrow> 'a list" where
  "slice_to limit xs =
     (if 0 \<le> limit then take (nat limit) xs else take (length xs - nat (- limit)) xs)"

definition opt_jv :: "string option \<Rightarrow> jv" where
  "opt_jv a = (case a of None \<Rightarrow> JNone | Some t \<Rightarrow> JStr t)"

text \<open>Lines 396 to 431.\<close>

definition summarize :: "world \<Rightarrow> string \<Rightarrow> int \<Rightarrow> string \<Rightarrow> row list \<Rightarrow> result prog" where
  "summarize w question limit generated_sql results =
     bnd (lift (json_rows w (slice_to limit results))) (\<lambda>context.
     bnd (ask_llm w (if is_listing_query question then listing_prompt context question
                     else direct_prompt context question)) (\<lambda>analysis.
     ret [(''question'', JStr question),
          (''generated_sql'', JStr generated_sql),
          (''analysis'', opt_jv analysis),
          (''result_count'', JInt (int (length results))),
          (''results'', JRows results)]))"

text \<open>Lines 359 to 431: the execution of the validated query and what follows it.\<close>

definition run_query :: "world \<Rightarrow> string \<Rightarrow> int \<Rightarrow> table list \<Rightarrow> string \<Rightarrow> result prog" where
  "run_query w question limit available_tables generated_sql s =
     (case execute_query w generated_sql [] s of
        (Inl e, s1) \<Rightarrow>
          (Inr [(''question'', JStr question),
                (''error'', JStr (''SQL execution failed: '' @ str_exn e)),
                (''generated_sql'', JStr generated_sql),
                (''available_tables'', full_names available_tables),
                (''suggestion'', JStr ''Check table/column names and permissions'')], s1)
      | (Inr results, s1) \<Rightarrow>
          (if results = [] then no_results w question available_tables generated_sql s1
           else summarize w question limit generated_sql results s1))"

text \<open>Lines 337 to 357: the two checks and the row limit between them.\<close>

definition validate_and_run :: "world \<Rightarrow> string \<Rightarrow> int \<Rightarrow> table list \<Rightarrow> string \<Rightarrow> result prog" where
  "validate_and_run w question limit available_tables generated_sql =
     (if \<not> startswith (upper generated_sql) ''SELECT''
      then ret [(''question'', JStr question),
                (''error'', JStr ''Generated query is not a SELECT statement''),
                (''generated_sql'', JStr generated_sql)]
      else (let generated_sql = inject_limit limit generated_sql
            in if \<not> has_valid_table available_tables generated_sql
               then ret [(''question'', JStr question),
                         (''error'', JStr ''Generated query references invalid tables''),
                         (''generated_sql'', JStr generated_sql),
                         (''available_tables'', full_names available_tables)]
               else run_query w question limit available_tables generated_sql))"

definition smart_analyze_body :: "world \<Rightarrow> string \<Rightarrow> int \<Rightarrow> result prog" where
  "smart_analyze_body w question limit =
     bnd (list_fabric_tables w) (\<lambda>available_tables.
       if available_tables = []
       then ret [(''question'', JStr question),
                 (''error'', JStr ''No tables found in Fabric SQL Database''),
                 (''suggestion'', JStr ''Check your connection and table permissions'')]
       else bnd (generate_sql w question limit) (\<lambda>generated_sql.
            validate_and_run w question limit available_tables generated_sql))"

definition smart_analyze_question :: "world \<Rightarrow> string \<Rightarrow> int \<Rightarrow> result prog" where
  "smart_analyze_question w question limit =
     try_except (smart_analyze_body w question limit)
       (\<lambda>e. ret [(''question'', JStr question),
                  (''error'', JStr (''Analysis failed: '' @ str_exn e)),
                  (''suggestion'', JStr ''Check connection and try a simpler question'')])"


section \<open>Example environments\<close>

text \<open>
  Concrete environments on which the theorems below are run. In all of them every
  environment variable is set and \<open>pyodbc.connect\<close> succeeds.
\<close>

definition ok_script :: "string list \<Rightarrow> val list list \<Rightarrow> db_script" where
  "ok_script cols rows =
     \<lparr>cursor_exn = None, execute_exn = None, description = Some cols, fetchall = Inr rows,
      cursor_close_exn = None, conn_close_exn = None\<rparr>"

definition example_world :: "(event list \<Rightarrow> db_script) \<Rightarrow> (event list \<Rightarrow> exn + string option) \<Rightarrow> world" where
  "example_world d l =
     \<lparr>getenv = (\<lambda>k. Some ''set''), connect = (\<lambda>h. None), db = d, llm = l,
      json_rows = (\<lambda>rs. Inr ''ROWS''), json_unique = (\<lambda>u. Inr ''UNIQUE'')\<rparr>"

text \<open>A database on which \<open>conn.cursor()\<close> raises.\<close>

definition broken_cursor_world :: world where
  "broken_cursor_world =
     example_world
       (\<lambda>h. (ok_script [] [])\<lparr>cursor_exn := Some (Exn ''OperationalError'' ''cursor failed'')\<rparr>)
       (\<lambda>h. Inr None)"

text \<open>A database that answers every query with one row whose \<open>Collation\<close> is NULL.\<close>

definition null_collation_world :: world where
  "null_collation_world = example_world (\<lambda>h. ok_script [''Collation''] [[VNone]]) (\<lambda>h. Inr None)"

text \<open>A database that answers every query with the collation \<open>Latin1_General_CI_AS\<close>.\<close>

definition collation_world :: world where
  "collation_world =
     example_world (\<lambda>h. ok_script [''Collation''] [[VStr ''Latin1_General_CI_AS'']])
       (\<lambda>h. Inr None)"

text \<open>
  A database with the one table \<open>[dbo].[t]\<close>: the table listing returns it, every other
  query returns one row with the column \<open>c\<close>. The language model always answers with
  the given text.
\<close>

definition one_table_db :: "event list \<Rightarrow> db_script" where
  "one_table_db h =
     (case last h of
        Query q ps \<Rightarrow>
          if q = list_tables_query
          then ok_script [''TABLE_SCHEMA'', ''TABLE_NAME'', ''TABLE_TYPE'']
                 [[VStr ''dbo'', VStr ''t'', VStr ''BASE TABLE'']]
          else ok_script [''c''] [[VStr ''v'']]
      | _ \<Rightarrow> ok_script [] [])"

definition one_table_world :: "string \<Rightarrow> world" where
  "one_table_world answer = example_world one_table_db (\<lambda>h. Inr (Some answer))"

definition table_t :: table where
  "table_t =
     \<lparr>tbl_schema = VStr ''dbo'', tbl_name = VStr ''t'', tbl_type = VStr ''BASE TABLE'',
      tbl_full_name = ''dbo.t'', tbl_working_format = ''[dbo].[t]''\<rparr>"


text \<open>
  A database with the one table \<open>[x].[SELECT TOP 100 y]\<close>, and a language model that
  always answers \<open>select * from [x].[SELECT y]\<close>.
\<close>

definition keyword_table_db :: "event list \<Rightarrow> db_script" where
  "keyword_table_db h =
     (case last h of
        Query q ps \<Rightarrow>
          if q = list_tables_query
          then ok_script [''TABLE_SCHEMA'', ''TABLE_NAME'', ''TABLE_TYPE'']
                 [[VStr ''x'', VStr ''SELECT TOP 100 y'', VStr ''BASE TABLE'']]
          else ok_script [''c''] [[VStr ''v'']]
      | _ \<Rightarrow> ok_script [] [])"

definition keyword_table_world :: world where
  "keyword_table_world =
     example_world keyword_table_db (\<lambda>h. Inr (Some ''select * from [x].[SELECT y]''))"

definition keyword_table :: table where
  "keyword_table =
     \<lparr>tbl_schema = VStr ''x'', tbl_name = VStr ''SELECT TOP 100 y'', tbl_type = VStr ''BASE TABLE'',
      tbl_full_name = ''x.SELECT TOP 100 y'', tbl_working_format = ''[x].[SELECT TOP 100 y]''\<rparr>"







section \<open>The listing test as the specification words it\<close>

text \<open>
  The specification's description of a listing request, written without the regular
  expression: after the leading white space the question begins, in any case, with one
  of the five words, and the word ends there: the question ends, or the next character
  is not a word character. It is compared with \<open>is_listing_query\<close> below.
\<close>

definition listing_words :: "string list" where
  "listing_words = [''list'', ''show'', ''display'', ''which'', ''what'']"

definition at_word_end :: "string \<Rightarrow> bool" where
  "at_word_end rest = (case rest of [] \<Rightarrow> True | c # _ \<Rightarrow> \<not> is_word_char c)"

definition begins_with_word :: "string \<Rightarrow> string \<Rightarrow> bool" where
  "begins_with_word wd s = (prefix wd (lower s) \<and> at_word_end (drop (length wd) s))"

definition starts_with_listing_word :: "string \<Rightarrow> bool" where
  "starts_with_listing_word question =
     list_ex (\<lambda>wd. begins_with_word wd (dropWhile is_space question)) listing_words"


section \<open>Cleaning leaves a clean query alone\<close>


lemma lstrip_id: "s \<noteq> [] \<Longrightarrow> \<not> is_space (hd s) \<Longrightarrow> py_lstrip s = s"
  by (cases s) (simp_all add: py_lstrip_def)

lemma rstrip_keeps_prefix:
  assumes "p \<noteq> []" "\<not> is_space (last p)"
  shows "\<exists>x. py_rstrip (p @ r) = p @ x"
proof -
  have hd: "\<not> is_space (hd (rev p))" using assms by (simp add: hd_rev)
  have dp: "dropWhile is_space (rev p) = rev p"
    using assms hd by (cases "rev p") simp_all
  show ?thesis
  proof (cases "\<forall>x\<in>set (rev r). is_space x")
    case True
    then have "dropWhile is_space (rev r @ rev p) = rev p"
      using dp by (simp add: dropWhile_append)
    then show ?thesis by (simp add: py_rstrip_def)
  next
    case False
    then have "dropWhile is_space (rev r @ rev p) = dropWhile is_space (rev r) @ rev p"
      by (auto simp: dropWhile_append)
    then show ?thesis by (simp add: py_rstrip_def)
  qed
qed

lemma rstrip_id: "s \<noteq> [] \<Longrightarrow> \<not> is_space (last s) \<Longrightarrow> py_rstrip s = s"
proof -
  assume a: "s \<noteq> []" "\<not> is_space (last s)"
  then have "\<not> is_space (hd (rev s))" by (simp add: hd_rev)
  then have "dropWhile is_space (rev s) = rev s"
    using a by (cases "rev s") simp_all
  then show ?thesis by (simp add: py_rstrip_def)
qed

lemma strip_id: "s \<noteq> [] \<Longrightarrow> \<not> is_space (hd s) \<Longrightarrow> \<not> is_space (last s) \<Longrightarrow> py_strip s = s"
  by (simp add: py_strip_def lstrip_id rstrip_id)

lemma rstrip_chars_id: "s \<noteq> [] \<Longrightarrow> last s \<notin> set chars \<Longrightarrow> py_rstrip_chars chars s = s"
proof -
  assume a: "s \<noteq> []" "last s \<notin> set chars"
  then have "hd (rev s) \<notin> set chars" by (simp add: hd_rev)
  then have "dropWhile (\<lambda>c. c \<in> set chars) (rev s) = rev s"
    using a by (cases "rev s") simp_all
  then show ?thesis by (simp add: py_rstrip_chars_def)
qed

lemma upper_SELECT: "upper (''SELECT'' @ r) = ''SELECT'' @ upper r"
  by (simp add: upper_def upper_char_def ascii_lowercase_def ascii_uppercase_def
      latin1_lowercase_def latin1_uppercase_def)

lemma lower_SELECT: "lower (''SELECT'' @ r) = ''select'' @ lower r"
  by (simp add: lower_def lower_char_def ascii_lowercase_def ascii_uppercase_def
      latin1_lowercase_def latin1_uppercase_def)

lemma not_space_S: "\<not> is_space CHR ''S''" "\<not> is_space CHR ''T''"
  by (simp_all add: is_space_def whitespace_def)

lemma strip_upper_SELECT: "\<exists>x. py_strip (''SELECT'' @ u) = ''SELECT'' @ x"
proof -
  have "py_lstrip (''SELECT'' @ u) = ''SELECT'' @ u"
    by (rule lstrip_id) (simp_all add: not_space_S)
  moreover have "\<exists>x. py_rstrip (''SELECT'' @ u) = ''SELECT'' @ x"
    by (rule rstrip_keeps_prefix) (simp_all add: not_space_S)
  ultimately show ?thesis by (simp add: py_strip_def)
qed

lemma fold_prefixes_SELECT: "fold strip_prefix prefixes (''SELECT'' @ r) = ''SELECT'' @ r"
  by (simp add: prefixes_def strip_prefix_def startswith_def lower_SELECT fence_def backtick_def
      lower_def lower_char_def ascii_lowercase_def ascii_uppercase_def
      latin1_lowercase_def latin1_uppercase_def)

text \<open>
  Claim C10: \<open>clean_generated_sql\<close> returns an already clean query unchanged: a text
  that starts with \<open>SELECT\<close>, has no white space at either end, does not start with a
  code fence and does not end with a backtick.
\<close>

theorem clean_generated_sql_identity:
  assumes sel: "startswith s ''SELECT''"
    and lead: "\<not> is_space (hd s)"
    and trail: "\<not> is_space (last s)"
    and nofence: "\<not> startswith s fence"
    and nobt: "last s \<noteq> backtick"
  shows "clean_generated_sql s = s"
proof -
  from sel obtain r where s: "s = ''SELECT'' @ r"
    by (auto simp: startswith_def prefix_def)
  have ne: "s \<noteq> []" using s by simp
  have st: "py_strip s = s" using ne lead trail by (rule strip_id)
  have fo: "fold strip_prefix prefixes s = s" unfolding s by (rule fold_prefixes_SELECT)
  have rs: "py_rstrip_chars [backtick] s = s" using ne nobt by (simp add: rstrip_chars_id)
  have "\<exists>x. py_strip (upper s) = ''SELECT'' @ x"
    unfolding s upper_SELECT by (rule strip_upper_SELECT)
  then obtain x where up: "py_strip (upper s) = ''SELECT'' @ x" by blast
  have a: "\<not> startswith (py_strip (upper s)) ''TOP ''" by (simp add: up startswith_def)
  have b: "startswith (py_strip (upper s)) ''SELECT''" by (simp add: up startswith_def)
  show ?thesis
    using nofence by (simp add: clean_generated_sql_def Let_def st fo rs a b)
qed

theorem clean_generated_sql_identity_witness:
  "startswith ''SELECT 1'' ''SELECT'' \<and> \<not> is_space (hd ''SELECT 1'') \<and> \<not> is_space (last ''SELECT 1'')
   \<and> \<not> startswith ''SELECT 1'' fence \<and> last ''SELECT 1'' \<noteq> backtick
   \<and> clean_generated_sql ''SELECT 1'' = ''SELECT 1''"
proof -
  have h1: "startswith ''SELECT 1'' ''SELECT''" by (simp add: startswith_def)
  have h2: "\<not> is_space (hd ''SELECT 1'')" by (simp add: is_space_def whitespace_def)
  have h3: "\<not> is_space (last ''SELECT 1'')" by (simp add: is_space_def whitespace_def)
  have h4: "\<not> startswith ''SELECT 1'' fence" by (simp add: startswith_def fence_def backtick_def)
  have h5: "last ''SELECT 1'' \<noteq> backtick" by (simp add: backtick_def)
  show ?thesis using h1 h2 h3 h4 h5 clean_generated_sql_identity [OF h1 h2 h3 h4 h5] by simp
qed


section \<open>The query executor and its connection\<close>


lemma bnd_apply:
  "bnd m f s = (case m s of (Inl e, s') \<Rightarrow> (Inl e, s') | (Inr x, s') \<Rightarrow> f x s')"
  by (simp add: bnd_def)

lemma try_apply:
  "try_except m h s = (case m s of (Inl e, s') \<Rightarrow> h e s' | (Inr x, s') \<Rightarrow> (Inr x, s'))"
  by (simp add: try_except_def)

lemma ret_apply: "ret x s = (Inr x, s)"
  by (simp add: ret_def)

lemma raise_apply: "raise e s = (Inl e, s)"
  by (simp add: raise_def)

lemma lift_apply: "lift r s = (r, s)"
  by (simp add: lift_def)

lemmas prog_simps = bnd_apply try_apply ret_apply raise_apply lift_apply

text \<open>
  Claim C4: \<open>execute_query\<close> closes the connection it opened on every outcome. The code
  does not when \<open>conn.cursor()\<close> raises: the connection is open, the \<open>finally\<close> block
  raises \<open>UnboundLocalError\<close> on the unbound \<open>cursor\<close>, and \<open>conn.close()\<close> is never
  reached.
\<close>

theorem execute_query_leaves_connection_open:
  assumes "get_fabric_connection w (log (Query q ps) s) = (Inr (), s1)"
    and "cursor_exn (db w (trace s @ [Query q ps])) = Some e"
  shows "execute_query w q ps s = (Inl (UnboundLocalError ''cursor''), s1)
         \<and> trace s1 = trace s @ [Query q ps, Opened]"
proof -
  have t: "trace (log (Query q ps) s) = trace s @ [Query q ps]" by (simp add: log_def)
  have "trace s1 = trace s @ [Query q ps, Opened]"
    using assms(1) by (auto simp: get_fabric_connection_def log_def split: if_splits option.splits)
  then show ?thesis using assms by (simp add: execute_query_def Let_def t)
qed

theorem execute_query_leaves_connection_open_witness:
  "execute_query broken_cursor_world ''SELECT 1'' [] init_state
     = (Inl (UnboundLocalError ''cursor''), \<lparr>trace = [Query ''SELECT 1'' [], Opened], DATABASE_COLLATION = VNone\<rparr>)
   \<and> trace \<lparr>trace = [Query ''SELECT 1'' [], Opened], DATABASE_COLLATION = VNone\<rparr>
       = trace init_state @ [Query ''SELECT 1'' [], Opened]"
proof -
  have h1: "get_fabric_connection broken_cursor_world (log (Query ''SELECT 1'' []) init_state)
            = (Inr (), \<lparr>trace = [Query ''SELECT 1'' [], Opened], DATABASE_COLLATION = VNone\<rparr>)"
    by (simp add: get_fabric_connection_def broken_cursor_world_def example_world_def log_def
        init_state_def truthy_def)
  have h2: "cursor_exn (db broken_cursor_world (trace init_state @ [Query ''SELECT 1'' []]))
            = Some (Exn ''OperationalError'' ''cursor failed'')"
    by (simp add: broken_cursor_world_def example_world_def ok_script_def)
  show ?thesis using execute_query_leaves_connection_open [OF h1 h2] .
qed


section \<open>The collation is cached\<close>


lemma execute_query_ok:
  "execute_query (example_world (\<lambda>h. ok_script cols rows) l) q ps s
   = (mk_rows cols rows,
      s\<lparr>trace := trace s @ [Query q ps, Opened, CursorOpened, CursorClosed, Closed]\<rparr>)"
  by (simp add: execute_query_def get_fabric_connection_def example_world_def ok_script_def
      log_def truthy_def Let_def query_body_def)

lemma null_step:
  "DATABASE_COLLATION s = VNone \<Longrightarrow>
   get_database_collation null_collation_world s
     = (Inr VNone, s\<lparr>trace := trace s @ [Query collation_query [], Opened, CursorOpened, CursorClosed, Closed]\<rparr>)"
  by (simp add: get_database_collation_def null_collation_world_def execute_query_ok
      mk_row_def getitem_def Let_def)

text \<open>\<open>execute_query\<close> does not touch the global, and its first event is the query.\<close>

lemma connection_keeps_collation:
  "DATABASE_COLLATION (snd (get_fabric_connection w s)) = DATABASE_COLLATION s"
  by (simp add: get_fabric_connection_def log_def split: option.splits)

lemma connection_extends_trace:
  "prefix (trace s) (trace (snd (get_fabric_connection w s)))"
  by (simp add: get_fabric_connection_def log_def split: option.splits)

lemma execute_query_keeps_collation:
  "DATABASE_COLLATION (snd (execute_query w q ps s)) = DATABASE_COLLATION s"
proof -
  obtain r s1 where c: "get_fabric_connection w (log (Query q ps) s) = (r, s1)"
    by (cases "get_fabric_connection w (log (Query q ps) s)")
  have "DATABASE_COLLATION s1 = DATABASE_COLLATION s"
    using connection_keeps_collation [of w "log (Query q ps) s"] c by (simp add: log_def)
  then show ?thesis
    using c by (simp add: execute_query_def Let_def log_def split: sum.splits option.splits)
qed

lemma execute_query_logs_query:
  "prefix (trace s @ [Query q ps]) (trace (snd (execute_query w q ps s)))"
proof -
  obtain r s1 where c: "get_fabric_connection w (log (Query q ps) s) = (r, s1)"
    by (cases "get_fabric_connection w (log (Query q ps) s)")
  have "prefix (trace s @ [Query q ps]) (trace s1)"
    using connection_extends_trace [of "log (Query q ps) s" w] c by (simp add: log_def)
  then show ?thesis
    using c by (auto simp: execute_query_def Let_def log_def prefix_def
        split: sum.splits option.splits)
qed

text \<open>What a call does when the cache holds a value, and what the first call stores.\<close>

lemma collation_result_is_global:
  "fst (get_database_collation w s) = Inr (DATABASE_COLLATION (snd (get_database_collation w s)))"
  by (simp add: get_database_collation_def Let_def)

lemma collation_cached:
  "DATABASE_COLLATION s \<noteq> VNone \<Longrightarrow> get_database_collation w s = (Inr (DATABASE_COLLATION s), s)"
  by (simp add: get_database_collation_def Let_def)

lemma collation_stored:
  assumes "DATABASE_COLLATION s = VNone"
    and "execute_query w collation_query [] s = (Inr (r # rs), s1)"
    and "getitem r ''Collation'' = Inr v"
  shows "get_database_collation w s = (Inr v, s1\<lparr>DATABASE_COLLATION := v\<rparr>)"
  using assms by (simp add: get_database_collation_def Let_def)

lemma collation_unknown_on_failure:
  assumes "DATABASE_COLLATION s = VNone"
    and "execute_query w collation_query [] s = (Inl e, s1)"
  shows "get_database_collation w s
         = (Inr (VStr ''Unknown''), s1\<lparr>DATABASE_COLLATION := VStr ''Unknown''\<rparr>)"
  using assms by (simp add: get_database_collation_def Let_def)

lemma collation_unknown_on_no_row:
  assumes "DATABASE_COLLATION s = VNone"
    and "execute_query w collation_query [] s = (Inr [], s1)"
  shows "get_database_collation w s
         = (Inr (VStr ''Unknown''), s1\<lparr>DATABASE_COLLATION := VStr ''Unknown''\<rparr>)"
  using assms by (simp add: get_database_collation_def Let_def)

lemma collation_requeried:
  assumes "DATABASE_COLLATION s = VNone"
  shows "prefix (trace s @ [Query collation_query []]) (trace (snd (get_database_collation w s)))"
proof -
  obtain r s1 where e: "execute_query w collation_query [] s = (r, s1)"
    by (cases "execute_query w collation_query [] s")
  have "prefix (trace s @ [Query collation_query []]) (trace s1)"
    using execute_query_logs_query [of s collation_query "[]" w] e by simp
  then show ?thesis
    using assms e
    by (simp add: get_database_collation_def Let_def split: sum.splits list.splits)
qed

text \<open>
  Claim C5: \<open>get_database_collation\<close> is memoized: the first call stores its result in
  the global, and every later call returns the cached value and issues no database
  query. The code does not when the database reports a NULL collation: the first call
  stores \<open>None\<close>, which is the mark of an empty cache, returns \<open>None\<close>, and the next
  call, whatever the database then answers, sends the collation query again.
\<close>

theorem null_collation_is_queried_again:
  assumes "DATABASE_COLLATION s = VNone"
    and "execute_query w collation_query [] s = (Inr (r # rs), s1)"
    and "getitem r ''Collation'' = Inr VNone"
  shows "get_database_collation w s = (Inr VNone, s1)
         \<and> DATABASE_COLLATION s1 = VNone
         \<and> prefix (trace s1 @ [Query collation_query []])
              (trace (snd (get_database_collation w' s1)))"
proof -
  have k: "DATABASE_COLLATION s1 = VNone"
    using execute_query_keeps_collation [of w collation_query "[]" s] assms(1,2) by simp
  then have "s1\<lparr>DATABASE_COLLATION := VNone\<rparr> = s1" by simp
  then have "get_database_collation w s = (Inr VNone, s1)"
    using collation_stored [OF assms] by simp
  then show ?thesis using k collation_requeried [OF k] by simp
qed

theorem null_collation_is_queried_again_witness:
  "DATABASE_COLLATION init_state = VNone
   \<and> execute_query null_collation_world collation_query [] init_state
       = (Inr [[(''Collation'', VNone)]],
          \<lparr>trace = [Query collation_query [], Opened, CursorOpened, CursorClosed, Closed],
           DATABASE_COLLATION = VNone\<rparr>)
   \<and> getitem [(''Collation'', VNone)] ''Collation'' = Inr VNone
   \<and> get_database_collation null_collation_world init_state
       = (Inr VNone,
          \<lparr>trace = [Query collation_query [], Opened, CursorOpened, CursorClosed, Closed],
           DATABASE_COLLATION = VNone\<rparr>)
   \<and> prefix ([Query collation_query [], Opened, CursorOpened, CursorClosed, Closed]
              @ [Query collation_query []])
        (trace (snd (get_database_collation null_collation_world
           \<lparr>trace = [Query collation_query [], Opened, CursorOpened, CursorClosed, Closed],
            DATABASE_COLLATION = VNone\<rparr>)))
   \<and> get_database_collation null_collation_world
        \<lparr>trace = [Query collation_query [], Opened, CursorOpened, CursorClosed, Closed],
         DATABASE_COLLATION = VNone\<rparr>
       = (Inr VNone,
          \<lparr>trace = [Query collation_query [], Opened, CursorOpened, CursorClosed, Closed,
                    Query collation_query [], Opened, CursorOpened, CursorClosed, Closed],
           DATABASE_COLLATION = VNone\<rparr>)"
proof -
  let ?s1 = "\<lparr>trace = [Query collation_query [], Opened, CursorOpened, CursorClosed, Closed],
              DATABASE_COLLATION = VNone\<rparr>"
  have h1: "DATABASE_COLLATION init_state = VNone" by (simp add: init_state_def)
  have h2: "execute_query null_collation_world collation_query [] init_state
            = (Inr [[(''Collation'', VNone)]], ?s1)"
    by (simp add: null_collation_world_def execute_query_ok init_state_def mk_row_def)
  have h3: "getitem [(''Collation'', VNone)] ''Collation'' = Inr VNone"
    by (simp add: getitem_def)
  have h4: "get_database_collation null_collation_world ?s1
            = (Inr VNone,
               \<lparr>trace = [Query collation_query [], Opened, CursorOpened, CursorClosed, Closed,
                         Query collation_query [], Opened, CursorOpened, CursorClosed, Closed],
                DATABASE_COLLATION = VNone\<rparr>)"
    by (simp add: null_step)
  show ?thesis
    using h1 h2 h3 h4 null_collation_is_queried_again [OF h1 h2 h3, of null_collation_world]
    by simp
qed

text \<open>
  The only caller, \<open>is_collation_case_insensitive\<close>, handles the string \<open>Unknown\<close> but
  not \<open>None\<close>: on a NULL collation it raises.
\<close>

lemma null_collation_breaks_case_test:
  assumes "get_database_collation w s = (Inr VNone, s1)"
  shows "is_collation_case_insensitive w s
         = (Inl (AttributeError ''object has no attribute upper''), s1)"
  using assms by (simp add: is_collation_case_insensitive_def prog_simps)


section \<open>The row limit\<close>


lemma replace1_absent: "\<not> sublist old s \<Longrightarrow> py_replace1 old new s = s"
proof (induction s)
  case Nil
  then show ?case by simp
next
  case (Cons c cs)
  have np: "\<not> prefix old (c # cs)"
    using Cons.prems prefix_imp_sublist by blast
  have "\<not> sublist old cs"
    using Cons.prems by (auto simp: sublist_Cons_right)
  then show ?case using Cons.IH np by simp
qed

lemma inject_limit_upper_case:
  "\<not> contains (upper (''SELECT'' @ r)) ''TOP'' \<Longrightarrow>
   inject_limit limit (''SELECT'' @ r) = ''SELECT TOP '' @ int_str limit @ r"
  by (simp add: inject_limit_def)

text \<open>
  Claim C3: for every cleaned query that starts with \<open>SELECT\<close> in any case and has no
  \<open>TOP\<close> clause, the limit is inserted after the first \<open>SELECT\<close>, so the executed query
  begins \<open>SELECT TOP limit\<close>. The code tests the start of the query without regard to
  case but replaces the upper-case text \<open>SELECT\<close> only: a query that spells the keyword
  in any other way and names a known table is executed as it is, with no limit.
\<close>

theorem limit_not_injected_after_lower_case_select:
  assumes "startswith (upper g) ''SELECT''"
    and "\<not> contains g ''SELECT''"
    and "has_valid_table ts g"
  shows "inject_limit limit g = g
         \<and> validate_and_run w question limit ts g = run_query w question limit ts g"
proof -
  have "inject_limit limit g = g"
    using assms(2) by (simp add: inject_limit_def contains_def replace1_absent)
  then show ?thesis using assms(1,3) by (simp add: validate_and_run_def Let_def)
qed

theorem limit_not_injected_after_lower_case_select_witness:
  "startswith (upper ''select * from [dbo].[t]'') ''SELECT''
   \<and> \<not> contains (upper ''select * from [dbo].[t]'') ''TOP''
   \<and> \<not> contains ''select * from [dbo].[t]'' ''SELECT''
   \<and> has_valid_table [table_t] ''select * from [dbo].[t]''
   \<and> inject_limit 100 ''select * from [dbo].[t]'' = ''select * from [dbo].[t]''
   \<and> validate_and_run (one_table_world ''select * from [dbo].[t]'') ''q'' 100 [table_t] ''select * from [dbo].[t]''
     = run_query (one_table_world ''select * from [dbo].[t]'') ''q'' 100 [table_t] ''select * from [dbo].[t]''"
proof -
  have h1: "startswith (upper ''select * from [dbo].[t]'') ''SELECT''" by code_simp
  have h2: "\<not> contains ''select * from [dbo].[t]'' ''SELECT''" by code_simp
  have h3: "has_valid_table [table_t] ''select * from [dbo].[t]''" by code_simp
  have h4: "\<not> contains (upper ''select * from [dbo].[t]'') ''TOP''" by code_simp
  show ?thesis
    using h1 h2 h3 h4
      limit_not_injected_after_lower_case_select [OF h1 h2 h3, of 100
        "one_table_world ''select * from [dbo].[t]''" "''q''"]
    by simp
qed


section \<open>The analysis always returns a result\<close>


lemma bnd_ret_shape:
  "bnd m (\<lambda>x. ret (f x)) s = (Inr d, s') \<Longrightarrow> \<exists>x. d = f x"
  by (auto simp: prog_simps split: prod.splits sum.splits)

lemma summarize_shape:
  assumes "summarize w q limit g results s = (Inr d, s')"
  shows "map_of d ''question'' = Some (JStr q) \<and> ''analysis'' \<in> fst ` set d"
proof -
  from assms obtain a where "d = [(''question'', JStr q), (''generated_sql'', JStr g),
       (''analysis'', opt_jv a), (''result_count'', JInt (int (length results))),
       (''results'', JRows results)]"
    by (auto simp: summarize_def prog_simps split: prod.splits sum.splits)
  then show ?thesis by simp
qed

lemma no_results_shape:
  assumes "no_results w q ts g s = (Inr d, s')"
  shows "map_of d ''question'' = Some (JStr q) \<and> ''analysis'' \<in> fst ` set d"
proof -
  from assms have "\<exists>sg. d = [(''question'', JStr q), (''generated_sql'', JStr g),
       (''analysis'', JStr ''Query executed but returned no results''),
       (''available_tables'', full_names ts),
       (''suggestions'', JStrs (if sg \<noteq> [] then sg else default_suggestions))]"
    unfolding no_results_def by (rule bnd_ret_shape)
  then show ?thesis by auto
qed

lemma run_query_shape:
  assumes "run_query w q limit ts g s = (Inr d, s')"
  shows "map_of d ''question'' = Some (JStr q)
         \<and> (''error'' \<in> fst ` set d \<or> ''analysis'' \<in> fst ` set d)"
proof (cases "execute_query w g [] s")
  case (Pair r s1)
  show ?thesis
  proof (cases r)
    case (Inl e)
    then show ?thesis using assms Pair by (auto simp: run_query_def)
  next
    case (Inr rows)
    show ?thesis
    proof (cases "rows = []")
      case True
      then have "no_results w q ts g s1 = (Inr d, s')"
        using assms Pair Inr by (simp add: run_query_def)
      then show ?thesis using no_results_shape by blast
    next
      case False
      then have "summarize w q limit g rows s1 = (Inr d, s')"
        using assms Pair Inr by (simp add: run_query_def)
      then show ?thesis using summarize_shape by blast
    qed
  qed
qed

lemma validate_and_run_shape:
  assumes "validate_and_run w q limit ts g s = (Inr d, s')"
  shows "map_of d ''question'' = Some (JStr q)
         \<and> (''error'' \<in> fst ` set d \<or> ''analysis'' \<in> fst ` set d)"
proof (cases "startswith (upper g) ''SELECT''")
  case False
  then show ?thesis using assms by (auto simp: validate_and_run_def prog_simps)
next
  case True
  show ?thesis
  proof (cases "has_valid_table ts (inject_limit limit g)")
    case False
    then show ?thesis using assms True by (auto simp: validate_and_run_def prog_simps Let_def)
  next
    case v: True
    then have "run_query w q limit ts (inject_limit limit g) s = (Inr d, s')"
      using assms True by (simp add: validate_and_run_def Let_def)
    then show ?thesis by (rule run_query_shape)
  qed
qed

lemma body_shape:
  assumes "smart_analyze_body w q limit s = (Inr d, s')"
  shows "map_of d ''question'' = Some (JStr q)
         \<and> (''error'' \<in> fst ` set d \<or> ''analysis'' \<in> fst ` set d)"
proof (cases "list_fabric_tables w s")
  case (Pair r s1)
  show ?thesis
  proof (cases r)
    case (Inl e)
    then show ?thesis using assms Pair by (simp add: smart_analyze_body_def prog_simps)
  next
    case (Inr ts)
    show ?thesis
    proof (cases "ts = []")
      case True
      then show ?thesis using assms Pair Inr by (auto simp: smart_analyze_body_def prog_simps)
    next
      case False
      obtain r2 s2 where g: "generate_sql w q limit s1 = (r2, s2)" by (cases "generate_sql w q limit s1")
      show ?thesis
      proof (cases r2)
        case (Inl e)
        then show ?thesis using assms Pair Inr False g by (simp add: smart_analyze_body_def prog_simps)
      next
        case (Inr gs)
        then have "validate_and_run w q limit ts gs s2 = (Inr d, s')"
          using assms Pair \<open>r = Inr ts\<close> False g by (simp add: smart_analyze_body_def prog_simps)
        then show ?thesis by (rule validate_and_run_shape)
      qed
    qed
  qed
qed

text \<open>
  Claim C9: \<open>smart_analyze_question\<close> never propagates an exception, whatever the
  database and the language model do, and every mapping it returns binds \<open>question\<close>
  to the question it was given and has an \<open>error\<close> or an \<open>analysis\<close> field.
\<close>

theorem smart_analyze_question_total:
  "\<exists>d s'. smart_analyze_question w question limit s = (Inr d, s')
           \<and> map_of d ''question'' = Some (JStr question)
           \<and> (''error'' \<in> fst ` set d \<or> ''analysis'' \<in> fst ` set d)"
proof (cases "smart_analyze_body w question limit s")
  case (Pair r s1)
  show ?thesis
  proof (cases r)
    case (Inl e)
    then show ?thesis using Pair by (simp add: smart_analyze_question_def prog_simps)
  next
    case (Inr d)
    then have "smart_analyze_question w question limit s = (Inr d, s1)"
      using Pair by (simp add: smart_analyze_question_def prog_simps)
    then show ?thesis using body_shape Pair Inr by blast
  qed
qed

theorem smart_analyze_question_total_witness:
  "\<exists>d s'. smart_analyze_question broken_cursor_world ''which tables?'' 100 init_state = (Inr d, s')
           \<and> map_of d ''question'' = Some (JStr ''which tables?'')
           \<and> (''error'' \<in> fst ` set d \<or> ''analysis'' \<in> fst ` set d)"
  by (rule smart_analyze_question_total)


section \<open>Only SELECT statements are executed\<close>


text \<open>
  Claim C1: when the cleaned query does not start with \<open>SELECT\<close>, in any case, the
  analysis returns a result with an \<open>error\<close> field and does not execute the query: the
  state it ends in is the state in which the generation of the query ended, so nothing
  was sent to the database after it.
\<close>

theorem non_select_is_rejected_unexecuted:
  assumes "list_fabric_tables w s = (Inr ts, s1)"
    and "ts \<noteq> []"
    and "generate_sql w question limit s1 = (Inr g, s2)"
    and "\<not> startswith (upper g) ''SELECT''"
  shows "smart_analyze_question w question limit s
         = (Inr [(''question'', JStr question),
                 (''error'', JStr ''Generated query is not a SELECT statement''),
                 (''generated_sql'', JStr g)], s2)"
  using assms
  by (simp add: smart_analyze_question_def smart_analyze_body_def validate_and_run_def prog_simps)

theorem non_select_is_rejected_unexecuted_witness:
  "list_fabric_tables (one_table_world ''DROP'') init_state
     = (Inr [table_t], snd (list_fabric_tables (one_table_world ''DROP'') init_state))
   \<and> [table_t] \<noteq> []
   \<and> generate_sql (one_table_world ''DROP'') ''which tables?'' 100
         (snd (list_fabric_tables (one_table_world ''DROP'') init_state))
       = (Inr ''DROP'',
          snd (generate_sql (one_table_world ''DROP'') ''which tables?'' 100
                 (snd (list_fabric_tables (one_table_world ''DROP'') init_state))))
   \<and> \<not> startswith (upper ''DROP'') ''SELECT''
   \<and> smart_analyze_question (one_table_world ''DROP'') ''which tables?'' 100 init_state
       = (Inr [(''question'', JStr ''which tables?''),
               (''error'', JStr ''Generated query is not a SELECT statement''),
               (''generated_sql'', JStr ''DROP'')],
          snd (generate_sql (one_table_world ''DROP'') ''which tables?'' 100
                 (snd (list_fabric_tables (one_table_world ''DROP'') init_state))))"
proof -
  let ?w = "one_table_world ''DROP''"
  let ?s1 = "snd (list_fabric_tables ?w init_state)"
  let ?s2 = "snd (generate_sql ?w ''which tables?'' 100 ?s1)"
  have "fst (list_fabric_tables ?w init_state) = Inr [table_t]"
    by code_simp
  then have h1: "list_fabric_tables ?w init_state = (Inr [table_t], ?s1)"
    by (simp add: prod_eq_iff)
  have h2: "[table_t] \<noteq> []" by simp
  have "fst (generate_sql ?w ''which tables?'' 100 ?s1) = Inr ''DROP''"
    by code_simp
  then have h3: "generate_sql ?w ''which tables?'' 100 ?s1 = (Inr ''DROP'', ?s2)"
    by (simp add: prod_eq_iff)
  have h4: "\<not> startswith (upper ''DROP'') ''SELECT''" by code_simp
  show ?thesis
    using h1 h2 h3 h4 non_select_is_rejected_unexecuted [OF h1 h2 h3 h4] by simp
qed


section \<open>Only queries on known tables are executed\<close>


lemma keyword_table_query:
  "q \<noteq> list_tables_query \<Longrightarrow>
   execute_query keyword_table_world q ps s
   = (Inr [[(''c'', VStr ''v'')]],
      s\<lparr>trace := trace s @ [Query q ps, Opened, CursorOpened, CursorClosed, Closed]\<rparr>)"
  by (simp add: execute_query_def get_fabric_connection_def keyword_table_world_def
      keyword_table_db_def example_world_def ok_script_def log_def truthy_def Let_def
      query_body_def mk_row_def)

lemma unknown_table_is_rejected:
  assumes "list_fabric_tables w s = (Inr ts, s1)"
    and "ts \<noteq> []"
    and "generate_sql w question limit s1 = (Inr g, s2)"
    and "startswith (upper g) ''SELECT''"
    and "\<not> has_valid_table ts (inject_limit limit g)"
  shows "smart_analyze_question w question limit s
         = (Inr [(''question'', JStr question),
                 (''error'', JStr ''Generated query references invalid tables''),
                 (''generated_sql'', JStr (inject_limit limit g)),
                 (''available_tables'', full_names ts)], s2)"
  using assms
  by (simp add: smart_analyze_question_def smart_analyze_body_def validate_and_run_def prog_simps Let_def)

text \<open>
  Claim C2: when the cleaned query contains the bracketed name of no listed table, in
  any case, the analysis returns a result with an \<open>error\<close> field and the list of the
  tables, and does not execute the query. The code looks for the names in the query
  after the row limit was inserted (lemma \<open>unknown_table_is_rejected\<close>), and the limit
  is inserted after the first upper-case text \<open>SELECT\<close>, wherever it is: when the
  insertion completes the name of a listed table, the changed query is executed.
\<close>

theorem query_without_known_table_is_executed:
  assumes "list_fabric_tables w s = (Inr ts, s1)"
    and "ts \<noteq> []"
    and "generate_sql w question limit s1 = (Inr g, s2)"
    and "startswith (upper g) ''SELECT''"
    and "\<not> has_valid_table ts g"
    and "has_valid_table ts (inject_limit limit g)"
  shows "smart_analyze_body w question limit s
         = run_query w question limit ts (inject_limit limit g) s2"
  using assms
  by (simp add: smart_analyze_body_def validate_and_run_def prog_simps Let_def)

theorem query_without_known_table_is_executed_witness:
  "list_fabric_tables keyword_table_world init_state
     = (Inr [keyword_table], snd (list_fabric_tables keyword_table_world init_state))
   \<and> [keyword_table] \<noteq> []
   \<and> generate_sql keyword_table_world ''which rows?'' 100
         (snd (list_fabric_tables keyword_table_world init_state))
       = (Inr ''select * from [x].[SELECT y]'',
          snd (generate_sql keyword_table_world ''which rows?'' 100
                 (snd (list_fabric_tables keyword_table_world init_state))))
   \<and> startswith (upper ''select * from [x].[SELECT y]'') ''SELECT''
   \<and> \<not> has_valid_table [keyword_table] ''select * from [x].[SELECT y]''
   \<and> has_valid_table [keyword_table] (inject_limit 100 ''select * from [x].[SELECT y]'')
   \<and> inject_limit 100 ''select * from [x].[SELECT y]'' = ''select * from [x].[SELECT TOP 100 y]''
   \<and> smart_analyze_body keyword_table_world ''which rows?'' 100 init_state
       = run_query keyword_table_world ''which rows?'' 100 [keyword_table]
           (inject_limit 100 ''select * from [x].[SELECT y]'')
           (snd (generate_sql keyword_table_world ''which rows?'' 100
                   (snd (list_fabric_tables keyword_table_world init_state))))
   \<and> smart_analyze_question keyword_table_world ''which rows?'' 100 init_state
       = (Inr [(''question'', JStr ''which rows?''),
               (''generated_sql'', JStr ''select * from [x].[SELECT TOP 100 y]''),
               (''analysis'', JStr ''select * from [x].[SELECT y]''),
               (''result_count'', JInt 1),
               (''results'', JRows [[(''c'', VStr ''v'')]])],
          (snd (generate_sql keyword_table_world ''which rows?'' 100
                  (snd (list_fabric_tables keyword_table_world init_state))))
          \<lparr>trace :=
             trace (snd (generate_sql keyword_table_world ''which rows?'' 100
                           (snd (list_fabric_tables keyword_table_world init_state))))
             @ [Query ''select * from [x].[SELECT TOP 100 y]'' [], Opened, CursorOpened,
                CursorClosed, Closed, Ask (listing_prompt ''ROWS'' ''which rows?'')]\<rparr>)"
proof -
  define s1 where "s1 = snd (list_fabric_tables keyword_table_world init_state)"
  define s2 where "s2 = snd (generate_sql keyword_table_world ''which rows?'' 100 s1)"
  have "fst (list_fabric_tables keyword_table_world init_state) = Inr [keyword_table]"
    by code_simp
  then have h1: "list_fabric_tables keyword_table_world init_state = (Inr [keyword_table], s1)"
    by (simp add: prod_eq_iff s1_def)
  have h2: "[keyword_table] \<noteq> []" by simp
  have "fst (generate_sql keyword_table_world ''which rows?'' 100
               (snd (list_fabric_tables keyword_table_world init_state)))
        = Inr ''select * from [x].[SELECT y]''"
    by code_simp
  then have h3: "generate_sql keyword_table_world ''which rows?'' 100 s1
                 = (Inr ''select * from [x].[SELECT y]'', s2)"
    by (simp add: prod_eq_iff s1_def s2_def)
  have h4: "startswith (upper ''select * from [x].[SELECT y]'') ''SELECT''" by code_simp
  have h5: "\<not> has_valid_table [keyword_table] ''select * from [x].[SELECT y]''"
    by code_simp
  have i: "inject_limit 100 ''select * from [x].[SELECT y]''
           = ''select * from [x].[SELECT TOP 100 y]''" by code_simp
  have "has_valid_table [keyword_table] ''select * from [x].[SELECT TOP 100 y]''"
    by code_simp
  then have h6: "has_valid_table [keyword_table] (inject_limit 100 ''select * from [x].[SELECT y]'')"
    by (simp only: i)
  have h7: "is_listing_query ''which rows?''" by code_simp
  have h8: "''select * from [x].[SELECT TOP 100 y]'' \<noteq> list_tables_query"
    by (simp add: list_tables_query_def newline_def)
  let ?s3 = "s2\<lparr>trace := trace s2 @ [Query ''select * from [x].[SELECT TOP 100 y]'' [], Opened,
               CursorOpened, CursorClosed, Closed]\<rparr>"
  let ?d = "[(''question'', JStr ''which rows?''),
             (''generated_sql'', JStr ''select * from [x].[SELECT TOP 100 y]''),
             (''analysis'', JStr ''select * from [x].[SELECT y]''),
             (''result_count'', JInt 1),
             (''results'', JRows [[(''c'', VStr ''v'')]])]"
  let ?s4 = "s2\<lparr>trace := trace s2
               @ [Query ''select * from [x].[SELECT TOP 100 y]'' [], Opened, CursorOpened,
                  CursorClosed, Closed, Ask (listing_prompt ''ROWS'' ''which rows?'')]\<rparr>"
  have ex: "execute_query keyword_table_world ''select * from [x].[SELECT TOP 100 y]'' [] s2
            = (Inr [[(''c'', VStr ''v'')]], ?s3)"
    by (rule keyword_table_query [OF h8])
  have su: "summarize keyword_table_world ''which rows?'' 100
              ''select * from [x].[SELECT TOP 100 y]'' [[(''c'', VStr ''v'')]] ?s3
            = (Inr ?d, ?s4)"
    by (simp add: summarize_def prog_simps h7 ask_llm_def log_def keyword_table_world_def
        example_world_def truthy_def opt_jv_def Let_def)
  have run: "run_query keyword_table_world ''which rows?'' 100 [keyword_table]
               ''select * from [x].[SELECT TOP 100 y]'' s2 = (Inr ?d, ?s4)"
    by (simp add: run_query_def ex su)
  have body: "smart_analyze_body keyword_table_world ''which rows?'' 100 init_state
              = run_query keyword_table_world ''which rows?'' 100 [keyword_table]
                  (inject_limit 100 ''select * from [x].[SELECT y]'') s2"
    by (rule query_without_known_table_is_executed [OF h1 h2 h3 h4 h5 h6])
  have all: "smart_analyze_question keyword_table_world ''which rows?'' 100 init_state
             = (Inr ?d, ?s4)"
    by (simp add: smart_analyze_question_def try_apply body i run)
  show ?thesis
    unfolding s1_def [symmetric] s2_def [symmetric]
    using h1 h2 h3 h4 h5 h6 i body all by blast
qed


section \<open>The one retry of the generation\<close>


lemma replace_has_new:
  "old \<noteq> [] \<Longrightarrow> sublist old s \<Longrightarrow> sublist new (py_replace old new s)"
proof (induction old new s rule: py_replace.induct)
  case (1 old new)
  then show ?case by simp
next
  case (2 old new c cs)
  show ?case
  proof (cases "prefix old (c # cs)")
    case True
    then show ?thesis by (simp add: sublist_append_rightI)
  next
    case False
    then have "sublist old cs" using "2.prems" by (auto simp: sublist_Cons_right)
    then have "sublist new (py_replace old new cs)" using "2.IH"(2) "2.prems"(1) False by simp
    then show ?thesis using False by (simp add: sublist_Cons_right)
  qed
qed

lemma prompt_has_rule: "sublist relax_old (prompt_text question tables_info limit ci)"
proof -
  have "\<exists>x y. prompt_text question tables_info limit ci = x @ relax_old @ y"
    unfolding prompt_text_def relax_old_def
    by (rule exI [of _ "[newline] @ ''Generate a Microsoft Fabric SQL Database query to answer this question.''
     @ [newline, newline] @ ''CRITICAL RULES for Fabric SQL Database:'' @ [newline]
     @ ''1. ALWAYS start with '' @ [dquote] @ ''SELECT'' @ [dquote, newline]
     @ ''2. ALWAYS use [schema].[Table Name] format for tables (e.g., [dbo].[TableName])''
     @ [newline]
     @ ''3. Use exact column names as listed, with brackets for names with spaces (e.g., [Column Name])''
     @ [newline] @ ''4. Include TOP '' @ int_str limit @ '' for performance'' @ [newline]
     @ ''5. Return only the SQL query, no explanations'' @ [newline]
     @ ''6. ''"], rule exI, simp)
  then show ?thesis by (auto simp: sublist_def)
qed

lemma ask_llm_trace: "trace (snd (ask_llm w p s)) = trace s @ [Ask p]"
  by (simp add: ask_llm_def Let_def log_def)

lemma prompt_is_prompt_text:
  assumes "build_smart_prompt w question ti limit s = (Inr p, s')"
  shows "\<exists>ci. p = prompt_text question ti limit ci"
  using assms
  by (auto simp: build_smart_prompt_def prog_simps split: prod.splits sum.splits)

lemma relaxed_prompt_has_new_rule:
  assumes "build_smart_prompt w question ti limit s = (Inr p, s')"
  shows "sublist relax_new (py_replace relax_old relax_new p)"
proof -
  obtain ci where "p = prompt_text question ti limit ci"
    using prompt_is_prompt_text [OF assms] by blast
  then have "sublist relax_old p" by (simp add: prompt_has_rule)
  moreover have "relax_old \<noteq> []" by (simp add: relax_old_def)
  ultimately show ?thesis by (simp add: replace_has_new)
qed

lemma no_retry_when_model_fails:
  assumes "get_tables_info w s = (Inr ti, s1)"
    and "build_smart_prompt w question ti limit s1 = (Inr p, s2)"
    and "ask_llm w p s2 = (Inl e, s3)"
  shows "generate_sql w question limit s = (Inl e, s3) \<and> trace s3 = trace s2 @ [Ask p]"
  using assms ask_llm_trace [of w p s2] by (simp add: generate_sql_def prog_simps)

lemma no_retry_when_answer_is_empty:
  assumes "get_tables_info w s = (Inr ti, s1)"
    and "build_smart_prompt w question ti limit s1 = (Inr p, s2)"
    and "ask_llm w p s2 = (Inr raw, s3)"
    and "clean_response raw = Inl e"
  shows "generate_sql w question limit s = (Inl e, s3) \<and> trace s3 = trace s2 @ [Ask p]"
  using assms ask_llm_trace [of w p s2] by (simp add: generate_sql_def prog_simps)

text \<open>
  Claim C6: the language model is called a second time exactly when the cleaned first
  answer, stripped and in upper case, is \<open>INSUFFICIENT_DATA\<close>; the second call is made
  once, with the prompt in which the rule on uncertainty is replaced by the request for
  a best guess, and its answer is cleaned and returned whatever it is. The events of
  the generation after the prompt was built are the one call, or the two.
\<close>

theorem sentinel_is_retried_once:
  assumes "get_tables_info w s = (Inr ti, s1)"
    and "build_smart_prompt w question ti limit s1 = (Inr p, s2)"
    and "ask_llm w p s2 = (Inr raw, s3)"
    and "clean_response raw = Inr g"
  shows "generate_sql w question limit s
         = (if is_sentinel g
            then (case ask_llm w (py_replace relax_old relax_new p) s3 of
                    (Inl e, s4) \<Rightarrow> (Inl e, s4)
                  | (Inr raw2, s4) \<Rightarrow> (clean_response raw2, s4))
            else (Inr g, s3))
         \<and> trace (snd (generate_sql w question limit s))
           = trace s2 @ (if is_sentinel g then [Ask p, Ask (py_replace relax_old relax_new p)]
                         else [Ask p])
         \<and> sublist relax_new (py_replace relax_old relax_new p)"
proof -
  have t3: "trace s3 = trace s2 @ [Ask p]"
    using ask_llm_trace [of w p s2] assms(3) by simp
  have g: "generate_sql w question limit s
           = (if is_sentinel g
              then (case ask_llm w (py_replace relax_old relax_new p) s3 of
                      (Inl e, s4) \<Rightarrow> (Inl e, s4)
                    | (Inr raw2, s4) \<Rightarrow> (clean_response raw2, s4))
              else (Inr g, s3))"
    using assms by (auto simp: generate_sql_def prog_simps split: prod.splits sum.splits)
  have t: "trace (snd (generate_sql w question limit s))
           = trace s2 @ (if is_sentinel g then [Ask p, Ask (py_replace relax_old relax_new p)]
                         else [Ask p])"
  proof (cases "is_sentinel g")
    case True
    have "trace (snd (ask_llm w (py_replace relax_old relax_new p) s3))
          = trace s3 @ [Ask (py_replace relax_old relax_new p)]"
      by (rule ask_llm_trace)
    then show ?thesis using True g t3 by (simp split: prod.splits sum.splits)
  next
    case False
    then show ?thesis using g t3 by simp
  qed
  show ?thesis using g t relaxed_prompt_has_new_rule [OF assms(2)] by simp
qed

theorem sentinel_is_retried_once_witness:
  "get_tables_info (one_table_world ''INSUFFICIENT_DATA'') init_state
     = (Inr ''Table: [dbo].[t] (Schema unavailable)'',
        (snd (get_tables_info (one_table_world ''INSUFFICIENT_DATA'') init_state)))
   \<and> build_smart_prompt (one_table_world ''INSUFFICIENT_DATA'') ''which tables?'' ''Table: [dbo].[t] (Schema unavailable)'' 100
         (snd (get_tables_info (one_table_world ''INSUFFICIENT_DATA'') init_state))
       = (Inr (prompt_text ''which tables?'' ''Table: [dbo].[t] (Schema unavailable)'' 100 case_sensitive_instruction),
          (snd (build_smart_prompt (one_table_world ''INSUFFICIENT_DATA'') ''which tables?'' ''Table: [dbo].[t] (Schema unavailable)'' 100 (snd (get_tables_info (one_table_world ''INSUFFICIENT_DATA'') init_state)))))
   \<and> ask_llm (one_table_world ''INSUFFICIENT_DATA'')
         (prompt_text ''which tables?'' ''Table: [dbo].[t] (Schema unavailable)'' 100 case_sensitive_instruction)
         (snd (build_smart_prompt (one_table_world ''INSUFFICIENT_DATA'') ''which tables?'' ''Table: [dbo].[t] (Schema unavailable)'' 100 (snd (get_tables_info (one_table_world ''INSUFFICIENT_DATA'') init_state))))
       = (Inr (Some ''INSUFFICIENT_DATA''),
          (snd (ask_llm (one_table_world ''INSUFFICIENT_DATA'') (prompt_text ''which tables?'' ''Table: [dbo].[t] (Schema unavailable)'' 100 case_sensitive_instruction) (snd (build_smart_prompt (one_table_world ''INSUFFICIENT_DATA'') ''which tables?'' ''Table: [dbo].[t] (Schema unavailable)'' 100 (snd (get_tables_info (one_table_world ''INSUFFICIENT_DATA'') init_state)))))))
   \<and> clean_response (Some ''INSUFFICIENT_DATA'') = Inr ''INSUFFICIENT_DATA''
   \<and> is_sentinel ''INSUFFICIENT_DATA''
   \<and> fst (generate_sql (one_table_world ''INSUFFICIENT_DATA'') ''which tables?'' 100 init_state) = Inr ''INSUFFICIENT_DATA''
   \<and> trace (snd (generate_sql (one_table_world ''INSUFFICIENT_DATA'') ''which tables?'' 100 init_state))
       = trace (snd (build_smart_prompt (one_table_world ''INSUFFICIENT_DATA'') ''which tables?'' ''Table: [dbo].[t] (Schema unavailable)'' 100 (snd (get_tables_info (one_table_world ''INSUFFICIENT_DATA'') init_state))))
         @ [Ask (prompt_text ''which tables?'' ''Table: [dbo].[t] (Schema unavailable)'' 100 case_sensitive_instruction),
            Ask (py_replace relax_old relax_new (prompt_text ''which tables?'' ''Table: [dbo].[t] (Schema unavailable)'' 100 case_sensitive_instruction))]
   \<and> sublist relax_new (py_replace relax_old relax_new (prompt_text ''which tables?'' ''Table: [dbo].[t] (Schema unavailable)'' 100 case_sensitive_instruction))"
proof -
  define w where "w = one_table_world ''INSUFFICIENT_DATA''"
  define p where "p = prompt_text ''which tables?'' ''Table: [dbo].[t] (Schema unavailable)'' 100 case_sensitive_instruction"
  define s1 where "s1 = snd (get_tables_info w init_state)"
  define s2 where "s2 = snd (build_smart_prompt w ''which tables?'' ''Table: [dbo].[t] (Schema unavailable)'' 100 s1)"
  define s3 where "s3 = snd (ask_llm w p s2)"
  have "fst (get_tables_info (one_table_world ''INSUFFICIENT_DATA'') init_state) = Inr ''Table: [dbo].[t] (Schema unavailable)''"
    by code_simp
  then have h1: "get_tables_info w init_state = (Inr ''Table: [dbo].[t] (Schema unavailable)'', s1)"
    by (simp add: prod_eq_iff s1_def w_def)
  have "fst (build_smart_prompt (one_table_world ''INSUFFICIENT_DATA'') ''which tables?'' ''Table: [dbo].[t] (Schema unavailable)'' 100 (snd (get_tables_info (one_table_world ''INSUFFICIENT_DATA'') init_state)))
        = Inr (prompt_text ''which tables?'' ''Table: [dbo].[t] (Schema unavailable)'' 100 case_sensitive_instruction)"
    by code_simp
  then have h2: "build_smart_prompt w ''which tables?'' ''Table: [dbo].[t] (Schema unavailable)'' 100 s1 = (Inr p, s2)"
    by (simp add: prod_eq_iff s1_def s2_def w_def p_def)
  have a: "fst (ask_llm w x s) = Inr (Some ''INSUFFICIENT_DATA'')" for x s
    by (simp add: ask_llm_def w_def one_table_world_def example_world_def truthy_def Let_def)
  have h3: "ask_llm w p s2 = (Inr (Some ''INSUFFICIENT_DATA''), s3)"
    using a [of p s2] by (simp add: prod_eq_iff s3_def)
  have h4: "clean_response (Some ''INSUFFICIENT_DATA'') = Inr ''INSUFFICIENT_DATA''"
    by code_simp
  have h5: "is_sentinel ''INSUFFICIENT_DATA''" by code_simp
  have r: "fst (case ask_llm w (py_replace relax_old relax_new p) s3 of
                  (Inl e, s4) \<Rightarrow> (Inl e, s4)
                | (Inr raw2, s4) \<Rightarrow> (clean_response raw2, s4))
           = Inr ''INSUFFICIENT_DATA''"
    using a [of "py_replace relax_old relax_new p" s3] h4
    by (simp add: prod_eq_iff split: prod.splits sum.splits)
  note t = sentinel_is_retried_once [OF h1 h2 h3 h4]
  have c1: "fst (generate_sql w ''which tables?'' 100 init_state) = Inr ''INSUFFICIENT_DATA''"
    using t [THEN conjunct1] h5 r by simp
  have c2: "trace (snd (generate_sql w ''which tables?'' 100 init_state))
            = trace s2 @ [Ask p, Ask (py_replace relax_old relax_new p)]"
    using t [THEN conjunct2, THEN conjunct1] h5 by simp
  have c3: "sublist relax_new (py_replace relax_old relax_new p)"
    using t [THEN conjunct2, THEN conjunct2] .
  show ?thesis
    using h1 h2 h3 h4 h5 c1 c2 c3
    unfolding s3_def s2_def s1_def p_def w_def by blast
qed


section \<open>The unique values of the string columns\<close>


lemma unique_entry_result:
  assumes "getitem col ''COLUMN_NAME'' = Inr cn"
  shows "unique_entry w t col uv s
         = (case execute_query w (unique_query cn t) [] s of
              (Inl e, s1) \<Rightarrow> (Inr (AList.update cn (UError (''Error: '' @ str_exn e)) uv), s1)
            | (Inr rows, s1) \<Rightarrow>
                (case map_exn (\<lambda>r. getitem_val r cn) rows of
                   Inl e \<Rightarrow> (Inr (AList.update cn (UError (''Error: '' @ str_exn e)) uv), s1)
                 | Inr vs \<Rightarrow> (Inr (AList.update cn (UValues (take 10 vs)) uv), s1)))"
  using assms
  by (simp add: unique_entry_def prog_simps split: prod.splits sum.splits)








lemma unique_entry_values:
  assumes "getitem col ''COLUMN_NAME'' = Inr cn"
    and "execute_query w (unique_query cn t) [] s = (Inr rows, s1)"
    and "map_exn (\<lambda>r. getitem_val r cn) rows = Inr vs"
    and "distinct vs" and "VNone \<notin> set vs"
  shows "\<exists>xs. unique_entry w t col uv s = (Inr (AList.update cn (UValues xs) uv), s1)
              \<and> length xs \<le> 10 \<and> distinct xs \<and> VNone \<notin> set xs \<and> set xs \<subseteq> set vs"
proof -
  have "unique_entry w t col uv s = (Inr (AList.update cn (UValues (take 10 vs)) uv), s1)"
    using assms(2,3) by (simp add: unique_entry_result [OF assms(1)])
  moreover have "VNone \<notin> set (take 10 vs)" "set (take 10 vs) \<subseteq> set vs"
    using assms(5) by (auto dest: in_set_takeD)
  ultimately show ?thesis using assms(4) by (intro exI [of _ "take 10 vs"]) simp
qed




section \<open>Listing questions and the two prompts of the summarizer\<close>


lemmas case_tables = lower_char_def ascii_lowercase_def ascii_uppercase_def
  latin1_lowercase_def latin1_uppercase_def

lemma lower_char_cases:
  "lower_char c = c \<or> c \<in> set (ascii_uppercase @ latin1_uppercase)"
  by (simp add: case_tables split: option.splits)

lemma is_space_lower [simp]: "is_space (lower_char c) = is_space c"
  using lower_char_cases [of c]
  by (auto simp: case_tables is_space_def whitespace_def)

lemma lower_char_idem [simp]: "lower_char (lower_char c) = lower_char c"
  using lower_char_cases [of c] by (auto simp: case_tables)

lemma is_word_char_lower [simp]: "is_word_char (lower_char c) = is_word_char c"
  using lower_char_cases [of c]
  by (auto simp: case_tables is_word_char_def Let_def)

lemma lower_dropWhile_space: "dropWhile is_space (lower q) = lower (dropWhile is_space q)"
  by (induction q) (simp_all add: lower_def)

lemma lower_idem: "lower (lower s) = lower s"
  by (simp add: lower_def)

lemma at_word_end_lower: "at_word_end (lower s) = at_word_end s"
  by (cases s) (simp_all add: at_word_end_def lower_def)

lemma begins_with_word_lower: "begins_with_word wd (lower s) = begins_with_word wd s"
proof -
  have "drop (length wd) (lower s) = lower (drop (length wd) s)"
    by (simp add: lower_def drop_map)
  then show ?thesis by (simp add: begins_with_word_def lower_idem at_word_end_lower)
qed

lemma concat_map_nonempty: "(concat (map g xs) \<noteq> []) = (\<exists>x\<in>set xs. g x \<noteq> [])"
  by (induction xs) auto

text \<open>A literal followed by a word boundary.\<close>

lemma lit_then_boundary:
  assumes "wd \<noteq> []" and "is_word_char (lower_char (last wd))"
  shows "(\<exists>p\<in>set (lit_match wd b s). rmatch WordB p \<noteq> [])
         = (prefix (lower wd) (lower s) \<and> at_word_end (drop (length wd) s))"
  using assms
proof (induction wd b s rule: lit_match.induct)
  case (1 b s)
  then show ?case by simp
next
  case (2 x xs b)
  then show ?case by (simp add: lower_def)
next
  case (3 x xs b c cs)
  show ?case
  proof (cases "lower_char c = lower_char x")
    case False
    then show ?thesis by (auto simp: lower_def)
  next
    case True
    show ?thesis
    proof (cases "xs = []")
      case e: True
      have "is_word_char c"
        using "3.prems"(2) True e is_word_char_lower [of c] by simp
      then show ?thesis
        using True e
        by (cases cs) (simp_all add: lower_def word_before_def word_after_def at_word_end_def)
    next
      case ne: False
      then have "(\<exists>p\<in>set (lit_match xs (Some c) cs). rmatch WordB p \<noteq> [])
                 = (prefix (lower xs) (lower cs) \<and> at_word_end (drop (length xs) cs))"
        using "3.IH" [OF True] "3.prems"(2) by simp
      then show ?thesis using True by (simp add: lower_def)
    qed
  qed
qed

lemma word_then_boundary:
  assumes "wd \<in> set listing_words"
  shows "(rmatch (Seq (Lit wd) WordB) (b, s) \<noteq> []) = begins_with_word wd (lower s)"
proof -
  have wds: "wd = ''list'' \<or> wd = ''show'' \<or> wd = ''display'' \<or> wd = ''which'' \<or> wd = ''what''"
    using assms by (simp add: listing_words_def)
  have ne: "wd \<noteq> []" using wds by auto
  have wc: "is_word_char (lower_char (last wd))"
    using wds by (elim disjE) (simp_all add: is_word_char_def Let_def case_tables)
  have lw: "lower wd = wd"
    using wds by (elim disjE) (simp_all add: lower_def case_tables)
  have "(rmatch (Seq (Lit wd) WordB) (b, s) \<noteq> [])
        = (\<exists>p\<in>set (lit_match wd b s). rmatch WordB p \<noteq> [])"
    by (simp only: rmatch.simps fst_conv snd_conv concat_map_nonempty)
  also have "\<dots> = (prefix (lower wd) (lower s) \<and> at_word_end (drop (length wd) s))"
    by (rule lit_then_boundary [OF ne wc])
  also have "\<dots> = begins_with_word wd s"
    by (simp add: begins_with_word_def lw)
  finally show ?thesis by (simp add: begins_with_word_lower)
qed

lemma seq_alt:
  "(rmatch (Seq (Alt a b) c) p \<noteq> [])
   = (rmatch (Seq a c) p \<noteq> [] \<or> rmatch (Seq b c) p \<noteq> [])"
  by (auto simp: concat_map_nonempty)

lemma words_then_boundary:
  "(rmatch (Seq (Alt (Lit ''list'') (Alt (Lit ''show'') (Alt (Lit ''display'')
               (Alt (Lit ''which'') (Lit ''what'')))))
             WordB) (b, s) \<noteq> [])
   = list_ex (\<lambda>wd. begins_with_word wd s) listing_words"
proof -
  have w: "(rmatch (Seq (Lit wd) WordB) (b, s) \<noteq> []) = begins_with_word wd s"
    if "wd \<in> set listing_words" for wd
    using word_then_boundary [OF that] by (simp add: begins_with_word_lower)
  have m: "''list'' \<in> set listing_words" "''show'' \<in> set listing_words"
    "''display'' \<in> set listing_words" "''which'' \<in> set listing_words"
    "''what'' \<in> set listing_words"
    by (simp_all add: listing_words_def)
  show ?thesis
    by (simp only: seq_alt w [OF m(1)] w [OF m(2)] w [OF m(3)] w [OF m(4)] w [OF m(5)])
       (simp add: listing_words_def)
qed

lemma no_word_at_space:
  assumes "is_space c"
  shows "\<not> list_ex (\<lambda>wd. begins_with_word wd (c # cs)) listing_words"
proof -
  have "is_space (lower_char c)" using assms by simp
  then have "lower_char c \<notin> {CHR ''l'', CHR ''s'', CHR ''d'', CHR ''w''}"
    by (auto simp: is_space_def whitespace_def)
  then show ?thesis
    by (auto simp: listing_words_def begins_with_word_def lower_def)
qed

lemma star_then:
  assumes "\<And>c cs. f c \<Longrightarrow> \<not> M (c # cs)"
  shows "(\<exists>p\<in>set (star_cls f b s). M (snd p)) = M (dropWhile f s)"
proof (induction s arbitrary: b)
  case Nil
  then show ?case by simp
next
  case (Cons c cs)
  show ?case
  proof (cases "f c")
    case True
    then have "\<not> M (c # cs)" by (rule assms)
    then show ?thesis using True Cons.IH [of "Some c"] by simp
  next
    case False
    then show ?thesis by simp
  qed
qed

lemma is_listing_query_spec: "is_listing_query question = starts_with_listing_word question"
proof -
  let ?M = "\<lambda>s. list_ex (\<lambda>wd. begins_with_word wd s) listing_words"
  have "is_listing_query question
        = (\<exists>p\<in>set (star_cls is_space None (lower question)).
             rmatch (Seq (Alt (Lit ''list'') (Alt (Lit ''show'') (Alt (Lit ''display'')
               (Alt (Lit ''which'') (Lit ''what''))))) WordB) p \<noteq> [])"
    by (simp add: is_listing_query_def re_match_def listing_pattern_def concat_map_nonempty)
  also have "\<dots> = (\<exists>p\<in>set (star_cls is_space None (lower question)). ?M (snd p))"
    using words_then_boundary by (metis prod.collapse)
  also have "\<dots> = ?M (dropWhile is_space (lower question))"
    by (rule star_then) (rule no_word_at_space)
  also have "\<dots> = ?M (dropWhile is_space question)"
    by (simp add: lower_dropWhile_space begins_with_word_lower)
  finally show ?thesis by (simp add: starts_with_listing_word_def)
qed

lemma summarize_asks_once:
  assumes "json_rows w (slice_to limit results) = Inr context"
  shows "trace (snd (summarize w question limit g results s))
         = trace s @ [Ask (if is_listing_query question then listing_prompt context question
                           else direct_prompt context question)]"
proof -
  let ?p = "if is_listing_query question then listing_prompt context question
            else direct_prompt context question"
  obtain r s1 where a: "ask_llm w ?p s = (r, s1)" by (cases "ask_llm w ?p s")
  have t: "trace s1 = trace s @ [Ask ?p]" using ask_llm_trace [of w "?p" s] a by simp
  have "snd (summarize w question limit g results s) = s1"
    using assms a by (cases r) (simp_all add: summarize_def prog_simps)
  then show ?thesis using t by simp
qed

text \<open>
  Claim C8: the summarizer takes a question for a listing request exactly when, after
  leading white space, it begins in any case with \<open>list\<close>, \<open>show\<close>, \<open>display\<close>,
  \<open>which\<close> or \<open>what\<close> at a word boundary; it then calls the language model once, with
  the numbered-list prompt for a listing request and the direct-answer prompt for any
  other question.
\<close>

theorem listing_questions_get_the_list_prompt:
  "is_listing_query question = starts_with_listing_word question
   \<and> (json_rows w (slice_to limit results) = Inr context \<longrightarrow>
        trace (snd (summarize w question limit g results s))
        = trace s @ [Ask (if starts_with_listing_word question
                          then listing_prompt context question
                          else direct_prompt context question)])"
  using summarize_asks_once [of w limit results "context" question g s]
  by (simp add: is_listing_query_spec)

theorem listing_questions_get_the_list_prompt_witness:
  "starts_with_listing_word ''  Which devices?''
   \<and> is_listing_query ''  Which devices?''
   \<and> \<not> starts_with_listing_word ''whatever works''
   \<and> \<not> is_listing_query ''whatever works''
   \<and> json_rows (one_table_world ''two'') (slice_to 100 [[(''c'', VStr ''v'')]]) = Inr ''ROWS''
   \<and> trace (snd (summarize (one_table_world ''two'') ''  Which devices?'' 100 ''SELECT 1''
                     [[(''c'', VStr ''v'')]] init_state))
       = trace init_state @ [Ask (listing_prompt ''ROWS'' ''  Which devices?'')]
   \<and> trace (snd (summarize (one_table_world ''two'') ''whatever works'' 100 ''SELECT 1''
                     [[(''c'', VStr ''v'')]] init_state))
       = trace init_state @ [Ask (direct_prompt ''ROWS'' ''whatever works'')]"
proof -
  have h1: "starts_with_listing_word ''  Which devices?''" by code_simp
  have h2: "\<not> starts_with_listing_word ''whatever works''" by code_simp
  have h3: "json_rows (one_table_world ''two'') (slice_to 100 [[(''c'', VStr ''v'')]]) = Inr ''ROWS''"
    by (simp add: one_table_world_def example_world_def)
  note t1 = listing_questions_get_the_list_prompt [of "''  Which devices?''"
      "one_table_world ''two''" 100 "[[(''c'', VStr ''v'')]]" "''ROWS''" "''SELECT 1''" init_state]
  note t2 = listing_questions_get_the_list_prompt [of "''whatever works''"
      "one_table_world ''two''" 100 "[[(''c'', VStr ''v'')]]" "''ROWS''" "''SELECT 1''" init_state]
  have c1: "is_listing_query ''  Which devices?''"
    using t1 [THEN conjunct1] h1 by simp
  have c2: "\<not> is_listing_query ''whatever works''"
    using t2 [THEN conjunct1] h2 by simp
  have c3: "trace (snd (summarize (one_table_world ''two'') ''  Which devices?'' 100 ''SELECT 1''
                     [[(''c'', VStr ''v'')]] init_state))
            = trace init_state @ [Ask (listing_prompt ''ROWS'' ''  Which devices?'')]"
    using t1 [THEN conjunct2] h3 h1 by simp
  have c4: "trace (snd (summarize (one_table_world ''two'') ''whatever works'' 100 ''SELECT 1''
                     [[(''c'', VStr ''v'')]] init_state))
            = trace init_state @ [Ask (direct_prompt ''ROWS'' ''whatever works'')]"
    using t2 [THEN conjunct2] h3 h2 by simp
  show ?thesis using h1 c1 h2 c2 h3 c3 c4 by blast
qed

end
